theory Spec2Isabelle
  imports Main "HOL-Library.Word"
begin

section \<open>Data model of package apis (apis/pkg/v1)\<close>

text \<open>
  Modelled from the spec: the struct types Provider, Configuration, ProviderRevision and
  ConfigurationRevision, whose declarations are not among the sources. The accessors of
  \<^verbatim>\<open>interfaces.go\<close> read and write their fields; the records below hold exactly the
  fields the accessors touch (with the types the accessors give them), plus, for
  revisions, the remaining properties the CRD schema
  \<^verbatim>\<open>pkg.crossplane.io_functionrevisions.yaml\<close> lists for PackageRevisionSpec and
  PackageRevisionStatus, as sections 3 and 6 of the specification describe them.
  Object metadata (resource.Object) is a type parameter.
  Go pointers to scalars (\<^verbatim>\<open>*bool\<close>, \<^verbatim>\<open>*string\<close>, \<^verbatim>\<open>*int64\<close>) are options, with
  \<open>None\<close> for nil; slices are lists; \<^verbatim>\<open>map[string]string\<close> is a partial map;
  \<^verbatim>\<open>int64\<close> is a 64-bit word read as two's complement.
\<close>

type_synonym int64 = "64 word"

text \<open>\<^verbatim>\<open>type RevisionActivationPolicy string\<close>\<close>

type_synonym RevisionActivationPolicy = string

definition AutomaticActivation :: RevisionActivationPolicy where
  "AutomaticActivation = ''Automatic''"

definition ManualActivation :: RevisionActivationPolicy where
  "ManualActivation = ''Manual''"

text \<open>
  Modelled from the spec: the type PackageRevisionDesiredState and its two values, whose
  declarations are not among the sources. The CRD schema types \<^verbatim>\<open>spec.desiredState\<close>
  as \<^verbatim>\<open>string\<close> and documents it as "Can be either Active or Inactive"; the
  specification names the same two values.
\<close>

type_synonym PackageRevisionDesiredState = string

definition PackageRevisionActive :: PackageRevisionDesiredState where
  "PackageRevisionActive = ''Active''"

definition PackageRevisionInactive :: PackageRevisionDesiredState where
  "PackageRevisionInactive = ''Inactive''"

text \<open>\<^verbatim>\<open>corev1.PullPolicy\<close> (schema type string).\<close>

type_synonym PullPolicy = string

record LocalObjectReference =
  Name :: string

record ControllerConfigReference =
  Name :: string

record ControllerReference =
  Name :: string

record TypedReference =
  APIVersion :: string
  Kind :: string
  Name :: string
  UID :: "string option"

record PolicyRule =
  Verbs :: "string list"
  APIGroups :: "string list"
  Resources :: "string list"
  ResourceNames :: "string list"
  NonResourceURLs :: "string list"

record Condition =
  Type :: string
  Status :: string
  LastTransitionTime :: string
  Reason :: string
  Message :: "string option"

text \<open>
  \<^verbatim>\<open>xpv1.ConditionedStatus\<close>, embedded in every status. Its two methods belong to
  crossplane-runtime, outside this repository: the accessors below take them as
  parameters \<open>getc\<close> (GetCondition) and \<open>setc\<close> (SetConditions).
\<close>

record ConditionedStatus =
  Conditions :: "Condition list"

type_synonym GetConditionFn = "string \<Rightarrow> ConditionedStatus \<Rightarrow> Condition"
type_synonym SetConditionsFn = "Condition list \<Rightarrow> ConditionedStatus \<Rightarrow> ConditionedStatus"

record ProviderSpec =
  Package :: string
  RevisionActivationPolicy :: "RevisionActivationPolicy option"
  RevisionHistoryLimit :: "int64 option"
  PackagePullSecrets :: "LocalObjectReference list"
  PackagePullPolicy :: "PullPolicy option"
  IgnoreCrossplaneConstraints :: "bool option"
  SkipDependencyResolution :: "bool option"
  CommonLabels :: "string \<rightharpoonup> string"
  ControllerConfigReference :: "ControllerConfigReference option"

record ConfigurationSpec =
  Package :: string
  RevisionActivationPolicy :: "RevisionActivationPolicy option"
  RevisionHistoryLimit :: "int64 option"
  PackagePullSecrets :: "LocalObjectReference list"
  PackagePullPolicy :: "PullPolicy option"
  IgnoreCrossplaneConstraints :: "bool option"
  SkipDependencyResolution :: "bool option"
  CommonLabels :: "string \<rightharpoonup> string"

record PackageStatus =
  ConditionedStatus :: ConditionedStatus
  CurrentRevision :: string
  CurrentIdentifier :: string

record 'm Provider =
  ObjectMeta :: 'm
  Spec :: ProviderSpec
  Status :: PackageStatus

record 'm Configuration =
  ObjectMeta :: 'm
  Spec :: ConfigurationSpec
  Status :: PackageStatus

record PackageRevisionSpec =
  ControllerConfigReference :: "ControllerConfigReference option"
  DesiredState :: PackageRevisionDesiredState
  Package :: string
  PackagePullSecrets :: "LocalObjectReference list"
  PackagePullPolicy :: "PullPolicy option"
  Revision :: int64
  IgnoreCrossplaneConstraints :: "bool option"
  SkipDependencyResolution :: "bool option"
  WebhookTLSSecretName :: "string option"
  ESSTLSSecretName :: "string option"
  TLSServerSecretName :: "string option"
  TLSClientSecretName :: "string option"
  CommonLabels :: "string \<rightharpoonup> string"

record PackageRevisionStatus =
  ConditionedStatus :: ConditionedStatus
  ControllerRef :: ControllerReference
  ObjectRefs :: "TypedReference list"
  FoundDependencies :: int64
  InstalledDependencies :: int64
  InvalidDependencies :: int64
  PermissionRequests :: "PolicyRule list"

record 'm ProviderRevision =
  ObjectMeta :: 'm
  Spec :: PackageRevisionSpec
  Status :: PackageRevisionStatus

record 'm ConfigurationRevision =
  ObjectMeta :: 'm
  Spec :: PackageRevisionSpec
  Status :: PackageRevisionStatus

section \<open>RefNames\<close>

text \<open>
  \<^verbatim>\<open>stringRefs := make([]string, len(refs))\<close> followed by the indexed loop
  \<^verbatim>\<open>for i, ref := range refs { stringRefs[i] = ref.Name }\<close>.
\<close>

fun RefNames_loop :: "nat \<Rightarrow> LocalObjectReference list \<Rightarrow> string list \<Rightarrow> string list" where
  "RefNames_loop i [] stringRefs = stringRefs"
| "RefNames_loop i (ref # refs) stringRefs =
     RefNames_loop (Suc i) refs (stringRefs[i := LocalObjectReference.Name ref])"

definition RefNames :: "LocalObjectReference list \<Rightarrow> string list" where
  "RefNames refs = RefNames_loop 0 refs (replicate (length refs) [])"

named_theorems accessor_defs \<open>defining equations of the accessors\<close>

section \<open>Provider\<close>


definition Provider_SetConditions :: "SetConditionsFn \<Rightarrow> Condition list \<Rightarrow> 'm Provider \<Rightarrow> 'm Provider" where
  [accessor_defs]: "Provider_SetConditions setc c p =
     p\<lparr>Provider.Status := (Provider.Status p)\<lparr>PackageStatus.ConditionedStatus :=
        setc c (PackageStatus.ConditionedStatus (Provider.Status p))\<rparr>\<rparr>"


definition Provider_SetSource :: "string \<Rightarrow> 'm Provider \<Rightarrow> 'm Provider" where
  [accessor_defs]: "Provider_SetSource s p =
     p\<lparr>Provider.Spec := (Provider.Spec p)\<lparr>ProviderSpec.Package := s\<rparr>\<rparr>"

definition Provider_GetActivationPolicy :: "'m Provider \<Rightarrow> RevisionActivationPolicy option" where
  [accessor_defs]: "Provider_GetActivationPolicy p =
     ProviderSpec.RevisionActivationPolicy (Provider.Spec p)"

definition Provider_SetActivationPolicy :: "RevisionActivationPolicy option \<Rightarrow> 'm Provider \<Rightarrow> 'm Provider" where
  [accessor_defs]: "Provider_SetActivationPolicy a p =
     p\<lparr>Provider.Spec := (Provider.Spec p)\<lparr>ProviderSpec.RevisionActivationPolicy := a\<rparr>\<rparr>"


definition Provider_SetPackagePullSecrets :: "LocalObjectReference list \<Rightarrow> 'm Provider \<Rightarrow> 'm Provider" where
  [accessor_defs]: "Provider_SetPackagePullSecrets s p =
     p\<lparr>Provider.Spec := (Provider.Spec p)\<lparr>ProviderSpec.PackagePullSecrets := s\<rparr>\<rparr>"


definition Provider_SetPackagePullPolicy :: "PullPolicy option \<Rightarrow> 'm Provider \<Rightarrow> 'm Provider" where
  [accessor_defs]: "Provider_SetPackagePullPolicy i p =
     p\<lparr>Provider.Spec := (Provider.Spec p)\<lparr>ProviderSpec.PackagePullPolicy := i\<rparr>\<rparr>"

definition Provider_GetRevisionHistoryLimit :: "'m Provider \<Rightarrow> int64 option" where
  [accessor_defs]: "Provider_GetRevisionHistoryLimit p =
     ProviderSpec.RevisionHistoryLimit (Provider.Spec p)"

definition Provider_SetRevisionHistoryLimit :: "int64 option \<Rightarrow> 'm Provider \<Rightarrow> 'm Provider" where
  [accessor_defs]: "Provider_SetRevisionHistoryLimit l p =
     p\<lparr>Provider.Spec := (Provider.Spec p)\<lparr>ProviderSpec.RevisionHistoryLimit := l\<rparr>\<rparr>"


definition Provider_SetIgnoreCrossplaneConstraints :: "bool option \<Rightarrow> 'm Provider \<Rightarrow> 'm Provider" where
  [accessor_defs]: "Provider_SetIgnoreCrossplaneConstraints b p =
     p\<lparr>Provider.Spec := (Provider.Spec p)\<lparr>ProviderSpec.IgnoreCrossplaneConstraints := b\<rparr>\<rparr>"


definition Provider_SetControllerConfigRef :: "ControllerConfigReference option \<Rightarrow> 'm Provider \<Rightarrow> 'm Provider" where
  [accessor_defs]: "Provider_SetControllerConfigRef r p =
     p\<lparr>Provider.Spec := (Provider.Spec p)\<lparr>ProviderSpec.ControllerConfigReference := r\<rparr>\<rparr>"


definition Provider_SetCurrentRevision :: "string \<Rightarrow> 'm Provider \<Rightarrow> 'm Provider" where
  [accessor_defs]: "Provider_SetCurrentRevision s p =
     p\<lparr>Provider.Status := (Provider.Status p)\<lparr>PackageStatus.CurrentRevision := s\<rparr>\<rparr>"


definition Provider_SetSkipDependencyResolution :: "bool option \<Rightarrow> 'm Provider \<Rightarrow> 'm Provider" where
  [accessor_defs]: "Provider_SetSkipDependencyResolution b p =
     p\<lparr>Provider.Spec := (Provider.Spec p)\<lparr>ProviderSpec.SkipDependencyResolution := b\<rparr>\<rparr>"


definition Provider_SetCurrentIdentifier :: "string \<Rightarrow> 'm Provider \<Rightarrow> 'm Provider" where
  [accessor_defs]: "Provider_SetCurrentIdentifier s p =
     p\<lparr>Provider.Status := (Provider.Status p)\<lparr>PackageStatus.CurrentIdentifier := s\<rparr>\<rparr>"


definition Provider_SetCommonLabels :: "(string \<rightharpoonup> string) \<Rightarrow> 'm Provider \<Rightarrow> 'm Provider" where
  [accessor_defs]: "Provider_SetCommonLabels l p =
     p\<lparr>Provider.Spec := (Provider.Spec p)\<lparr>ProviderSpec.CommonLabels := l\<rparr>\<rparr>"

section \<open>Configuration\<close>


definition Configuration_SetConditions :: "SetConditionsFn \<Rightarrow> Condition list \<Rightarrow> 'm Configuration \<Rightarrow> 'm Configuration" where
  [accessor_defs]: "Configuration_SetConditions setc c p =
     p\<lparr>Configuration.Status := (Configuration.Status p)\<lparr>PackageStatus.ConditionedStatus :=
        setc c (PackageStatus.ConditionedStatus (Configuration.Status p))\<rparr>\<rparr>"


definition Configuration_SetSource :: "string \<Rightarrow> 'm Configuration \<Rightarrow> 'm Configuration" where
  [accessor_defs]: "Configuration_SetSource s p =
     p\<lparr>Configuration.Spec := (Configuration.Spec p)\<lparr>ConfigurationSpec.Package := s\<rparr>\<rparr>"

definition Configuration_GetActivationPolicy :: "'m Configuration \<Rightarrow> RevisionActivationPolicy option" where
  [accessor_defs]: "Configuration_GetActivationPolicy p =
     ConfigurationSpec.RevisionActivationPolicy (Configuration.Spec p)"

definition Configuration_SetActivationPolicy :: "RevisionActivationPolicy option \<Rightarrow> 'm Configuration \<Rightarrow> 'm Configuration" where
  [accessor_defs]: "Configuration_SetActivationPolicy a p =
     p\<lparr>Configuration.Spec := (Configuration.Spec p)\<lparr>ConfigurationSpec.RevisionActivationPolicy := a\<rparr>\<rparr>"


definition Configuration_SetPackagePullSecrets :: "LocalObjectReference list \<Rightarrow> 'm Configuration \<Rightarrow> 'm Configuration" where
  [accessor_defs]: "Configuration_SetPackagePullSecrets s p =
     p\<lparr>Configuration.Spec := (Configuration.Spec p)\<lparr>ConfigurationSpec.PackagePullSecrets := s\<rparr>\<rparr>"


definition Configuration_SetPackagePullPolicy :: "PullPolicy option \<Rightarrow> 'm Configuration \<Rightarrow> 'm Configuration" where
  [accessor_defs]: "Configuration_SetPackagePullPolicy i p =
     p\<lparr>Configuration.Spec := (Configuration.Spec p)\<lparr>ConfigurationSpec.PackagePullPolicy := i\<rparr>\<rparr>"


definition Configuration_SetRevisionHistoryLimit :: "int64 option \<Rightarrow> 'm Configuration \<Rightarrow> 'm Configuration" where
  [accessor_defs]: "Configuration_SetRevisionHistoryLimit l p =
     p\<lparr>Configuration.Spec := (Configuration.Spec p)\<lparr>ConfigurationSpec.RevisionHistoryLimit := l\<rparr>\<rparr>"


definition Configuration_SetIgnoreCrossplaneConstraints :: "bool option \<Rightarrow> 'm Configuration \<Rightarrow> 'm Configuration" where
  [accessor_defs]: "Configuration_SetIgnoreCrossplaneConstraints b p =
     p\<lparr>Configuration.Spec := (Configuration.Spec p)\<lparr>ConfigurationSpec.IgnoreCrossplaneConstraints := b\<rparr>\<rparr>"


definition Configuration_SetControllerConfigRef :: "ControllerConfigReference option \<Rightarrow> 'm Configuration \<Rightarrow> 'm Configuration" where
  [accessor_defs]: "Configuration_SetControllerConfigRef r p = p"


definition Configuration_SetCurrentRevision :: "string \<Rightarrow> 'm Configuration \<Rightarrow> 'm Configuration" where
  [accessor_defs]: "Configuration_SetCurrentRevision s p =
     p\<lparr>Configuration.Status := (Configuration.Status p)\<lparr>PackageStatus.CurrentRevision := s\<rparr>\<rparr>"


definition Configuration_SetSkipDependencyResolution :: "bool option \<Rightarrow> 'm Configuration \<Rightarrow> 'm Configuration" where
  [accessor_defs]: "Configuration_SetSkipDependencyResolution b p =
     p\<lparr>Configuration.Spec := (Configuration.Spec p)\<lparr>ConfigurationSpec.SkipDependencyResolution := b\<rparr>\<rparr>"


definition Configuration_SetCurrentIdentifier :: "string \<Rightarrow> 'm Configuration \<Rightarrow> 'm Configuration" where
  [accessor_defs]: "Configuration_SetCurrentIdentifier s p =
     p\<lparr>Configuration.Status := (Configuration.Status p)\<lparr>PackageStatus.CurrentIdentifier := s\<rparr>\<rparr>"


definition Configuration_SetCommonLabels :: "(string \<rightharpoonup> string) \<Rightarrow> 'm Configuration \<Rightarrow> 'm Configuration" where
  [accessor_defs]: "Configuration_SetCommonLabels l p =
     p\<lparr>Configuration.Spec := (Configuration.Spec p)\<lparr>ConfigurationSpec.CommonLabels := l\<rparr>\<rparr>"

section \<open>ProviderRevision\<close>

definition ProviderRevision_GetCondition :: "GetConditionFn \<Rightarrow> string \<Rightarrow> 'm ProviderRevision \<Rightarrow> Condition" where
  [accessor_defs]: "ProviderRevision_GetCondition getc ct p =
     getc ct (PackageRevisionStatus.ConditionedStatus (ProviderRevision.Status p))"

definition ProviderRevision_SetConditions :: "SetConditionsFn \<Rightarrow> Condition list \<Rightarrow> 'm ProviderRevision \<Rightarrow> 'm ProviderRevision" where
  [accessor_defs]: "ProviderRevision_SetConditions setc c p =
     p\<lparr>ProviderRevision.Status := (ProviderRevision.Status p)\<lparr>PackageRevisionStatus.ConditionedStatus :=
        setc c (PackageRevisionStatus.ConditionedStatus (ProviderRevision.Status p))\<rparr>\<rparr>"

definition ProviderRevision_GetObjects :: "'m ProviderRevision \<Rightarrow> TypedReference list" where
  [accessor_defs]: "ProviderRevision_GetObjects p = PackageRevisionStatus.ObjectRefs (ProviderRevision.Status p)"

definition ProviderRevision_SetObjects :: "TypedReference list \<Rightarrow> 'm ProviderRevision \<Rightarrow> 'm ProviderRevision" where
  [accessor_defs]: "ProviderRevision_SetObjects c p =
     p\<lparr>ProviderRevision.Status := (ProviderRevision.Status p)\<lparr>PackageRevisionStatus.ObjectRefs := c\<rparr>\<rparr>"

definition ProviderRevision_GetControllerReference :: "'m ProviderRevision \<Rightarrow> ControllerReference" where
  [accessor_defs]: "ProviderRevision_GetControllerReference p = PackageRevisionStatus.ControllerRef (ProviderRevision.Status p)"

definition ProviderRevision_SetControllerReference :: "ControllerReference \<Rightarrow> 'm ProviderRevision \<Rightarrow> 'm ProviderRevision" where
  [accessor_defs]: "ProviderRevision_SetControllerReference c p =
     p\<lparr>ProviderRevision.Status := (ProviderRevision.Status p)\<lparr>PackageRevisionStatus.ControllerRef := c\<rparr>\<rparr>"

definition ProviderRevision_GetSource :: "'m ProviderRevision \<Rightarrow> string" where
  [accessor_defs]: "ProviderRevision_GetSource p = PackageRevisionSpec.Package (ProviderRevision.Spec p)"

definition ProviderRevision_SetSource :: "string \<Rightarrow> 'm ProviderRevision \<Rightarrow> 'm ProviderRevision" where
  [accessor_defs]: "ProviderRevision_SetSource s p =
     p\<lparr>ProviderRevision.Spec := (ProviderRevision.Spec p)\<lparr>PackageRevisionSpec.Package := s\<rparr>\<rparr>"

definition ProviderRevision_GetPackagePullSecrets :: "'m ProviderRevision \<Rightarrow> LocalObjectReference list" where
  [accessor_defs]: "ProviderRevision_GetPackagePullSecrets p = PackageRevisionSpec.PackagePullSecrets (ProviderRevision.Spec p)"

definition ProviderRevision_SetPackagePullSecrets :: "LocalObjectReference list \<Rightarrow> 'm ProviderRevision \<Rightarrow> 'm ProviderRevision" where
  [accessor_defs]: "ProviderRevision_SetPackagePullSecrets s p =
     p\<lparr>ProviderRevision.Spec := (ProviderRevision.Spec p)\<lparr>PackageRevisionSpec.PackagePullSecrets := s\<rparr>\<rparr>"

definition ProviderRevision_GetPackagePullPolicy :: "'m ProviderRevision \<Rightarrow> PullPolicy option" where
  [accessor_defs]: "ProviderRevision_GetPackagePullPolicy p = PackageRevisionSpec.PackagePullPolicy (ProviderRevision.Spec p)"

definition ProviderRevision_SetPackagePullPolicy :: "PullPolicy option \<Rightarrow> 'm ProviderRevision \<Rightarrow> 'm ProviderRevision" where
  [accessor_defs]: "ProviderRevision_SetPackagePullPolicy i p =
     p\<lparr>ProviderRevision.Spec := (ProviderRevision.Spec p)\<lparr>PackageRevisionSpec.PackagePullPolicy := i\<rparr>\<rparr>"

definition ProviderRevision_GetDesiredState :: "'m ProviderRevision \<Rightarrow> PackageRevisionDesiredState" where
  [accessor_defs]: "ProviderRevision_GetDesiredState p = PackageRevisionSpec.DesiredState (ProviderRevision.Spec p)"

definition ProviderRevision_SetDesiredState :: "PackageRevisionDesiredState \<Rightarrow> 'm ProviderRevision \<Rightarrow> 'm ProviderRevision" where
  [accessor_defs]: "ProviderRevision_SetDesiredState s p =
     p\<lparr>ProviderRevision.Spec := (ProviderRevision.Spec p)\<lparr>PackageRevisionSpec.DesiredState := s\<rparr>\<rparr>"

definition ProviderRevision_GetRevision :: "'m ProviderRevision \<Rightarrow> int64" where
  [accessor_defs]: "ProviderRevision_GetRevision p = PackageRevisionSpec.Revision (ProviderRevision.Spec p)"

definition ProviderRevision_SetRevision :: "int64 \<Rightarrow> 'm ProviderRevision \<Rightarrow> 'm ProviderRevision" where
  [accessor_defs]: "ProviderRevision_SetRevision r p =
     p\<lparr>ProviderRevision.Spec := (ProviderRevision.Spec p)\<lparr>PackageRevisionSpec.Revision := r\<rparr>\<rparr>"

definition ProviderRevision_GetDependencyStatus :: "'m ProviderRevision \<Rightarrow> int64 \<times> int64 \<times> int64" where
  [accessor_defs]: "ProviderRevision_GetDependencyStatus p =
     (PackageRevisionStatus.FoundDependencies (ProviderRevision.Status p),
      PackageRevisionStatus.InstalledDependencies (ProviderRevision.Status p),
      PackageRevisionStatus.InvalidDependencies (ProviderRevision.Status p))"

definition ProviderRevision_SetDependencyStatus :: "int64 \<Rightarrow> int64 \<Rightarrow> int64 \<Rightarrow> 'm ProviderRevision \<Rightarrow> 'm ProviderRevision" where
  [accessor_defs]: "ProviderRevision_SetDependencyStatus found installed invalid p =
     p\<lparr>ProviderRevision.Status := (ProviderRevision.Status p)
        \<lparr>PackageRevisionStatus.FoundDependencies := found,
         PackageRevisionStatus.InstalledDependencies := installed,
         PackageRevisionStatus.InvalidDependencies := invalid\<rparr>\<rparr>"

definition ProviderRevision_GetIgnoreCrossplaneConstraints :: "'m ProviderRevision \<Rightarrow> bool option" where
  [accessor_defs]: "ProviderRevision_GetIgnoreCrossplaneConstraints p = PackageRevisionSpec.IgnoreCrossplaneConstraints (ProviderRevision.Spec p)"

definition ProviderRevision_SetIgnoreCrossplaneConstraints :: "bool option \<Rightarrow> 'm ProviderRevision \<Rightarrow> 'm ProviderRevision" where
  [accessor_defs]: "ProviderRevision_SetIgnoreCrossplaneConstraints b p =
     p\<lparr>ProviderRevision.Spec := (ProviderRevision.Spec p)\<lparr>PackageRevisionSpec.IgnoreCrossplaneConstraints := b\<rparr>\<rparr>"

definition ProviderRevision_GetControllerConfigRef :: "'m ProviderRevision \<Rightarrow> ControllerConfigReference option" where
  [accessor_defs]: "ProviderRevision_GetControllerConfigRef p = PackageRevisionSpec.ControllerConfigReference (ProviderRevision.Spec p)"

definition ProviderRevision_SetControllerConfigRef :: "ControllerConfigReference option \<Rightarrow> 'm ProviderRevision \<Rightarrow> 'm ProviderRevision" where
  [accessor_defs]: "ProviderRevision_SetControllerConfigRef r p =
     p\<lparr>ProviderRevision.Spec := (ProviderRevision.Spec p)\<lparr>PackageRevisionSpec.ControllerConfigReference := r\<rparr>\<rparr>"

definition ProviderRevision_GetSkipDependencyResolution :: "'m ProviderRevision \<Rightarrow> bool option" where
  [accessor_defs]: "ProviderRevision_GetSkipDependencyResolution p = PackageRevisionSpec.SkipDependencyResolution (ProviderRevision.Spec p)"

definition ProviderRevision_SetSkipDependencyResolution :: "bool option \<Rightarrow> 'm ProviderRevision \<Rightarrow> 'm ProviderRevision" where
  [accessor_defs]: "ProviderRevision_SetSkipDependencyResolution b p =
     p\<lparr>ProviderRevision.Spec := (ProviderRevision.Spec p)\<lparr>PackageRevisionSpec.SkipDependencyResolution := b\<rparr>\<rparr>"

definition ProviderRevision_GetWebhookTLSSecretName :: "'m ProviderRevision \<Rightarrow> string option" where
  [accessor_defs]: "ProviderRevision_GetWebhookTLSSecretName p = PackageRevisionSpec.WebhookTLSSecretName (ProviderRevision.Spec p)"

definition ProviderRevision_SetWebhookTLSSecretName :: "string option \<Rightarrow> 'm ProviderRevision \<Rightarrow> 'm ProviderRevision" where
  [accessor_defs]: "ProviderRevision_SetWebhookTLSSecretName b p =
     p\<lparr>ProviderRevision.Spec := (ProviderRevision.Spec p)\<lparr>PackageRevisionSpec.WebhookTLSSecretName := b\<rparr>\<rparr>"

definition ProviderRevision_GetESSTLSSecretName :: "'m ProviderRevision \<Rightarrow> string option" where
  [accessor_defs]: "ProviderRevision_GetESSTLSSecretName p = PackageRevisionSpec.ESSTLSSecretName (ProviderRevision.Spec p)"

definition ProviderRevision_SetESSTLSSecretName :: "string option \<Rightarrow> 'm ProviderRevision \<Rightarrow> 'm ProviderRevision" where
  [accessor_defs]: "ProviderRevision_SetESSTLSSecretName s p =
     p\<lparr>ProviderRevision.Spec := (ProviderRevision.Spec p)\<lparr>PackageRevisionSpec.ESSTLSSecretName := s\<rparr>\<rparr>"

definition ProviderRevision_GetTLSServerSecretName :: "'m ProviderRevision \<Rightarrow> string option" where
  [accessor_defs]: "ProviderRevision_GetTLSServerSecretName p = PackageRevisionSpec.TLSServerSecretName (ProviderRevision.Spec p)"

definition ProviderRevision_SetTLSServerSecretName :: "string option \<Rightarrow> 'm ProviderRevision \<Rightarrow> 'm ProviderRevision" where
  [accessor_defs]: "ProviderRevision_SetTLSServerSecretName s p =
     p\<lparr>ProviderRevision.Spec := (ProviderRevision.Spec p)\<lparr>PackageRevisionSpec.TLSServerSecretName := s\<rparr>\<rparr>"

definition ProviderRevision_GetTLSClientSecretName :: "'m ProviderRevision \<Rightarrow> string option" where
  [accessor_defs]: "ProviderRevision_GetTLSClientSecretName p = PackageRevisionSpec.TLSClientSecretName (ProviderRevision.Spec p)"

definition ProviderRevision_SetTLSClientSecretName :: "string option \<Rightarrow> 'm ProviderRevision \<Rightarrow> 'm ProviderRevision" where
  [accessor_defs]: "ProviderRevision_SetTLSClientSecretName s p =
     p\<lparr>ProviderRevision.Spec := (ProviderRevision.Spec p)\<lparr>PackageRevisionSpec.TLSClientSecretName := s\<rparr>\<rparr>"

definition ProviderRevision_GetCommonLabels :: "'m ProviderRevision \<Rightarrow> (string \<rightharpoonup> string)" where
  [accessor_defs]: "ProviderRevision_GetCommonLabels p = PackageRevisionSpec.CommonLabels (ProviderRevision.Spec p)"

definition ProviderRevision_SetCommonLabels :: "(string \<rightharpoonup> string) \<Rightarrow> 'm ProviderRevision \<Rightarrow> 'm ProviderRevision" where
  [accessor_defs]: "ProviderRevision_SetCommonLabels l p =
     p\<lparr>ProviderRevision.Spec := (ProviderRevision.Spec p)\<lparr>PackageRevisionSpec.CommonLabels := l\<rparr>\<rparr>"

section \<open>ConfigurationRevision\<close>

definition ConfigurationRevision_GetCondition :: "GetConditionFn \<Rightarrow> string \<Rightarrow> 'm ConfigurationRevision \<Rightarrow> Condition" where
  [accessor_defs]: "ConfigurationRevision_GetCondition getc ct p =
     getc ct (PackageRevisionStatus.ConditionedStatus (ConfigurationRevision.Status p))"

definition ConfigurationRevision_SetConditions :: "SetConditionsFn \<Rightarrow> Condition list \<Rightarrow> 'm ConfigurationRevision \<Rightarrow> 'm ConfigurationRevision" where
  [accessor_defs]: "ConfigurationRevision_SetConditions setc c p =
     p\<lparr>ConfigurationRevision.Status := (ConfigurationRevision.Status p)\<lparr>PackageRevisionStatus.ConditionedStatus :=
        setc c (PackageRevisionStatus.ConditionedStatus (ConfigurationRevision.Status p))\<rparr>\<rparr>"

definition ConfigurationRevision_GetObjects :: "'m ConfigurationRevision \<Rightarrow> TypedReference list" where
  [accessor_defs]: "ConfigurationRevision_GetObjects p = PackageRevisionStatus.ObjectRefs (ConfigurationRevision.Status p)"

definition ConfigurationRevision_SetObjects :: "TypedReference list \<Rightarrow> 'm ConfigurationRevision \<Rightarrow> 'm ConfigurationRevision" where
  [accessor_defs]: "ConfigurationRevision_SetObjects c p =
     p\<lparr>ConfigurationRevision.Status := (ConfigurationRevision.Status p)\<lparr>PackageRevisionStatus.ObjectRefs := c\<rparr>\<rparr>"

definition ConfigurationRevision_GetControllerReference :: "'m ConfigurationRevision \<Rightarrow> ControllerReference" where
  [accessor_defs]: "ConfigurationRevision_GetControllerReference p = PackageRevisionStatus.ControllerRef (ConfigurationRevision.Status p)"

definition ConfigurationRevision_SetControllerReference :: "ControllerReference \<Rightarrow> 'm ConfigurationRevision \<Rightarrow> 'm ConfigurationRevision" where
  [accessor_defs]: "ConfigurationRevision_SetControllerReference c p =
     p\<lparr>ConfigurationRevision.Status := (ConfigurationRevision.Status p)\<lparr>PackageRevisionStatus.ControllerRef := c\<rparr>\<rparr>"

definition ConfigurationRevision_GetSource :: "'m ConfigurationRevision \<Rightarrow> string" where
  [accessor_defs]: "ConfigurationRevision_GetSource p = PackageRevisionSpec.Package (ConfigurationRevision.Spec p)"

definition ConfigurationRevision_SetSource :: "string \<Rightarrow> 'm ConfigurationRevision \<Rightarrow> 'm ConfigurationRevision" where
  [accessor_defs]: "ConfigurationRevision_SetSource s p =
     p\<lparr>ConfigurationRevision.Spec := (ConfigurationRevision.Spec p)\<lparr>PackageRevisionSpec.Package := s\<rparr>\<rparr>"

definition ConfigurationRevision_GetPackagePullSecrets :: "'m ConfigurationRevision \<Rightarrow> LocalObjectReference list" where
  [accessor_defs]: "ConfigurationRevision_GetPackagePullSecrets p = PackageRevisionSpec.PackagePullSecrets (ConfigurationRevision.Spec p)"

definition ConfigurationRevision_SetPackagePullSecrets :: "LocalObjectReference list \<Rightarrow> 'm ConfigurationRevision \<Rightarrow> 'm ConfigurationRevision" where
  [accessor_defs]: "ConfigurationRevision_SetPackagePullSecrets s p =
     p\<lparr>ConfigurationRevision.Spec := (ConfigurationRevision.Spec p)\<lparr>PackageRevisionSpec.PackagePullSecrets := s\<rparr>\<rparr>"

definition ConfigurationRevision_GetPackagePullPolicy :: "'m ConfigurationRevision \<Rightarrow> PullPolicy option" where
  [accessor_defs]: "ConfigurationRevision_GetPackagePullPolicy p = PackageRevisionSpec.PackagePullPolicy (ConfigurationRevision.Spec p)"

definition ConfigurationRevision_SetPackagePullPolicy :: "PullPolicy option \<Rightarrow> 'm ConfigurationRevision \<Rightarrow> 'm ConfigurationRevision" where
  [accessor_defs]: "ConfigurationRevision_SetPackagePullPolicy i p =
     p\<lparr>ConfigurationRevision.Spec := (ConfigurationRevision.Spec p)\<lparr>PackageRevisionSpec.PackagePullPolicy := i\<rparr>\<rparr>"

definition ConfigurationRevision_GetDesiredState :: "'m ConfigurationRevision \<Rightarrow> PackageRevisionDesiredState" where
  [accessor_defs]: "ConfigurationRevision_GetDesiredState p = PackageRevisionSpec.DesiredState (ConfigurationRevision.Spec p)"

definition ConfigurationRevision_SetDesiredState :: "PackageRevisionDesiredState \<Rightarrow> 'm ConfigurationRevision \<Rightarrow> 'm ConfigurationRevision" where
  [accessor_defs]: "ConfigurationRevision_SetDesiredState s p =
     p\<lparr>ConfigurationRevision.Spec := (ConfigurationRevision.Spec p)\<lparr>PackageRevisionSpec.DesiredState := s\<rparr>\<rparr>"

definition ConfigurationRevision_GetRevision :: "'m ConfigurationRevision \<Rightarrow> int64" where
  [accessor_defs]: "ConfigurationRevision_GetRevision p = PackageRevisionSpec.Revision (ConfigurationRevision.Spec p)"

definition ConfigurationRevision_SetRevision :: "int64 \<Rightarrow> 'm ConfigurationRevision \<Rightarrow> 'm ConfigurationRevision" where
  [accessor_defs]: "ConfigurationRevision_SetRevision r p =
     p\<lparr>ConfigurationRevision.Spec := (ConfigurationRevision.Spec p)\<lparr>PackageRevisionSpec.Revision := r\<rparr>\<rparr>"

definition ConfigurationRevision_GetDependencyStatus :: "'m ConfigurationRevision \<Rightarrow> int64 \<times> int64 \<times> int64" where
  [accessor_defs]: "ConfigurationRevision_GetDependencyStatus p =
     (PackageRevisionStatus.FoundDependencies (ConfigurationRevision.Status p),
      PackageRevisionStatus.InstalledDependencies (ConfigurationRevision.Status p),
      PackageRevisionStatus.InvalidDependencies (ConfigurationRevision.Status p))"

definition ConfigurationRevision_SetDependencyStatus :: "int64 \<Rightarrow> int64 \<Rightarrow> int64 \<Rightarrow> 'm ConfigurationRevision \<Rightarrow> 'm ConfigurationRevision" where
  [accessor_defs]: "ConfigurationRevision_SetDependencyStatus found installed invalid p =
     p\<lparr>ConfigurationRevision.Status := (ConfigurationRevision.Status p)
        \<lparr>PackageRevisionStatus.FoundDependencies := found,
         PackageRevisionStatus.InstalledDependencies := installed,
         PackageRevisionStatus.InvalidDependencies := invalid\<rparr>\<rparr>"

definition ConfigurationRevision_GetIgnoreCrossplaneConstraints :: "'m ConfigurationRevision \<Rightarrow> bool option" where
  [accessor_defs]: "ConfigurationRevision_GetIgnoreCrossplaneConstraints p = PackageRevisionSpec.IgnoreCrossplaneConstraints (ConfigurationRevision.Spec p)"

definition ConfigurationRevision_SetIgnoreCrossplaneConstraints :: "bool option \<Rightarrow> 'm ConfigurationRevision \<Rightarrow> 'm ConfigurationRevision" where
  [accessor_defs]: "ConfigurationRevision_SetIgnoreCrossplaneConstraints b p =
     p\<lparr>ConfigurationRevision.Spec := (ConfigurationRevision.Spec p)\<lparr>PackageRevisionSpec.IgnoreCrossplaneConstraints := b\<rparr>\<rparr>"

definition ConfigurationRevision_GetControllerConfigRef :: "'m ConfigurationRevision \<Rightarrow> ControllerConfigReference option" where
  [accessor_defs]: "ConfigurationRevision_GetControllerConfigRef p = PackageRevisionSpec.ControllerConfigReference (ConfigurationRevision.Spec p)"

definition ConfigurationRevision_SetControllerConfigRef :: "ControllerConfigReference option \<Rightarrow> 'm ConfigurationRevision \<Rightarrow> 'm ConfigurationRevision" where
  [accessor_defs]: "ConfigurationRevision_SetControllerConfigRef r p =
     p\<lparr>ConfigurationRevision.Spec := (ConfigurationRevision.Spec p)\<lparr>PackageRevisionSpec.ControllerConfigReference := r\<rparr>\<rparr>"

definition ConfigurationRevision_GetSkipDependencyResolution :: "'m ConfigurationRevision \<Rightarrow> bool option" where
  [accessor_defs]: "ConfigurationRevision_GetSkipDependencyResolution p = PackageRevisionSpec.SkipDependencyResolution (ConfigurationRevision.Spec p)"

definition ConfigurationRevision_SetSkipDependencyResolution :: "bool option \<Rightarrow> 'm ConfigurationRevision \<Rightarrow> 'm ConfigurationRevision" where
  [accessor_defs]: "ConfigurationRevision_SetSkipDependencyResolution b p =
     p\<lparr>ConfigurationRevision.Spec := (ConfigurationRevision.Spec p)\<lparr>PackageRevisionSpec.SkipDependencyResolution := b\<rparr>\<rparr>"

definition ConfigurationRevision_GetWebhookTLSSecretName :: "'m ConfigurationRevision \<Rightarrow> string option" where
  [accessor_defs]: "ConfigurationRevision_GetWebhookTLSSecretName p = PackageRevisionSpec.WebhookTLSSecretName (ConfigurationRevision.Spec p)"

definition ConfigurationRevision_SetWebhookTLSSecretName :: "string option \<Rightarrow> 'm ConfigurationRevision \<Rightarrow> 'm ConfigurationRevision" where
  [accessor_defs]: "ConfigurationRevision_SetWebhookTLSSecretName b p =
     p\<lparr>ConfigurationRevision.Spec := (ConfigurationRevision.Spec p)\<lparr>PackageRevisionSpec.WebhookTLSSecretName := b\<rparr>\<rparr>"

definition ConfigurationRevision_GetESSTLSSecretName :: "'m ConfigurationRevision \<Rightarrow> string option" where
  [accessor_defs]: "ConfigurationRevision_GetESSTLSSecretName p = PackageRevisionSpec.ESSTLSSecretName (ConfigurationRevision.Spec p)"

definition ConfigurationRevision_SetESSTLSSecretName :: "string option \<Rightarrow> 'm ConfigurationRevision \<Rightarrow> 'm ConfigurationRevision" where
  [accessor_defs]: "ConfigurationRevision_SetESSTLSSecretName s p =
     p\<lparr>ConfigurationRevision.Spec := (ConfigurationRevision.Spec p)\<lparr>PackageRevisionSpec.ESSTLSSecretName := s\<rparr>\<rparr>"

definition ConfigurationRevision_GetTLSServerSecretName :: "'m ConfigurationRevision \<Rightarrow> string option" where
  [accessor_defs]: "ConfigurationRevision_GetTLSServerSecretName p = PackageRevisionSpec.TLSServerSecretName (ConfigurationRevision.Spec p)"

definition ConfigurationRevision_SetTLSServerSecretName :: "string option \<Rightarrow> 'm ConfigurationRevision \<Rightarrow> 'm ConfigurationRevision" where
  [accessor_defs]: "ConfigurationRevision_SetTLSServerSecretName s p =
     p\<lparr>ConfigurationRevision.Spec := (ConfigurationRevision.Spec p)\<lparr>PackageRevisionSpec.TLSServerSecretName := s\<rparr>\<rparr>"

definition ConfigurationRevision_GetTLSClientSecretName :: "'m ConfigurationRevision \<Rightarrow> string option" where
  [accessor_defs]: "ConfigurationRevision_GetTLSClientSecretName p = PackageRevisionSpec.TLSClientSecretName (ConfigurationRevision.Spec p)"

definition ConfigurationRevision_SetTLSClientSecretName :: "string option \<Rightarrow> 'm ConfigurationRevision \<Rightarrow> 'm ConfigurationRevision" where
  [accessor_defs]: "ConfigurationRevision_SetTLSClientSecretName s p =
     p\<lparr>ConfigurationRevision.Spec := (ConfigurationRevision.Spec p)\<lparr>PackageRevisionSpec.TLSClientSecretName := s\<rparr>\<rparr>"

definition ConfigurationRevision_GetCommonLabels :: "'m ConfigurationRevision \<Rightarrow> (string \<rightharpoonup> string)" where
  [accessor_defs]: "ConfigurationRevision_GetCommonLabels p = PackageRevisionSpec.CommonLabels (ConfigurationRevision.Spec p)"

definition ConfigurationRevision_SetCommonLabels :: "(string \<rightharpoonup> string) \<Rightarrow> 'm ConfigurationRevision \<Rightarrow> 'm ConfigurationRevision" where
  [accessor_defs]: "ConfigurationRevision_SetCommonLabels l p =
     p\<lparr>ConfigurationRevision.Spec := (ConfigurationRevision.Spec p)\<lparr>PackageRevisionSpec.CommonLabels := l\<rparr>\<rparr>"

section \<open>The interfaces' setters as data\<close>

text \<open>
  One constructor per setter of the \<^verbatim>\<open>Package\<close> interface (with SetConditions of the
  embedded \<^verbatim>\<open>resource.Conditioned\<close>), carrying the setter's argument. A call through
  the interface dispatches to the method of the concrete type.
\<close>

datatype Package_setter =
    Pkg_SetConditions "Condition list"
  | Pkg_SetSource string
  | Pkg_SetActivationPolicy "RevisionActivationPolicy option"
  | Pkg_SetPackagePullSecrets "LocalObjectReference list"
  | Pkg_SetPackagePullPolicy "PullPolicy option"
  | Pkg_SetRevisionHistoryLimit "int64 option"
  | Pkg_SetIgnoreCrossplaneConstraints "bool option"
  | Pkg_SetControllerConfigRef "ControllerConfigReference option"
  | Pkg_SetCurrentRevision string
  | Pkg_SetCurrentIdentifier string
  | Pkg_SetSkipDependencyResolution "bool option"
  | Pkg_SetCommonLabels "string \<rightharpoonup> string"

fun Provider_call :: "SetConditionsFn \<Rightarrow> Package_setter \<Rightarrow> 'm Provider \<Rightarrow> 'm Provider" where
  "Provider_call setc (Pkg_SetConditions x) p = Provider_SetConditions setc x p"
| "Provider_call setc (Pkg_SetSource x) p = Provider_SetSource x p"
| "Provider_call setc (Pkg_SetActivationPolicy x) p = Provider_SetActivationPolicy x p"
| "Provider_call setc (Pkg_SetPackagePullSecrets x) p = Provider_SetPackagePullSecrets x p"
| "Provider_call setc (Pkg_SetPackagePullPolicy x) p = Provider_SetPackagePullPolicy x p"
| "Provider_call setc (Pkg_SetRevisionHistoryLimit x) p = Provider_SetRevisionHistoryLimit x p"
| "Provider_call setc (Pkg_SetIgnoreCrossplaneConstraints x) p = Provider_SetIgnoreCrossplaneConstraints x p"
| "Provider_call setc (Pkg_SetControllerConfigRef x) p = Provider_SetControllerConfigRef x p"
| "Provider_call setc (Pkg_SetCurrentRevision x) p = Provider_SetCurrentRevision x p"
| "Provider_call setc (Pkg_SetCurrentIdentifier x) p = Provider_SetCurrentIdentifier x p"
| "Provider_call setc (Pkg_SetSkipDependencyResolution x) p = Provider_SetSkipDependencyResolution x p"
| "Provider_call setc (Pkg_SetCommonLabels x) p = Provider_SetCommonLabels x p"

fun Configuration_call :: "SetConditionsFn \<Rightarrow> Package_setter \<Rightarrow> 'm Configuration \<Rightarrow> 'm Configuration" where
  "Configuration_call setc (Pkg_SetConditions x) p = Configuration_SetConditions setc x p"
| "Configuration_call setc (Pkg_SetSource x) p = Configuration_SetSource x p"
| "Configuration_call setc (Pkg_SetActivationPolicy x) p = Configuration_SetActivationPolicy x p"
| "Configuration_call setc (Pkg_SetPackagePullSecrets x) p = Configuration_SetPackagePullSecrets x p"
| "Configuration_call setc (Pkg_SetPackagePullPolicy x) p = Configuration_SetPackagePullPolicy x p"
| "Configuration_call setc (Pkg_SetRevisionHistoryLimit x) p = Configuration_SetRevisionHistoryLimit x p"
| "Configuration_call setc (Pkg_SetIgnoreCrossplaneConstraints x) p = Configuration_SetIgnoreCrossplaneConstraints x p"
| "Configuration_call setc (Pkg_SetControllerConfigRef x) p = Configuration_SetControllerConfigRef x p"
| "Configuration_call setc (Pkg_SetCurrentRevision x) p = Configuration_SetCurrentRevision x p"
| "Configuration_call setc (Pkg_SetCurrentIdentifier x) p = Configuration_SetCurrentIdentifier x p"
| "Configuration_call setc (Pkg_SetSkipDependencyResolution x) p = Configuration_SetSkipDependencyResolution x p"
| "Configuration_call setc (Pkg_SetCommonLabels x) p = Configuration_SetCommonLabels x p"

text \<open>The setters of the \<^verbatim>\<open>PackageRevision\<close> interface.\<close>

datatype Revision_setter =
    Rev_SetConditions "Condition list"
  | Rev_SetObjects "TypedReference list"
  | Rev_SetControllerReference ControllerReference
  | Rev_SetSource string
  | Rev_SetPackagePullSecrets "LocalObjectReference list"
  | Rev_SetPackagePullPolicy "PullPolicy option"
  | Rev_SetDesiredState PackageRevisionDesiredState
  | Rev_SetIgnoreCrossplaneConstraints "bool option"
  | Rev_SetControllerConfigRef "ControllerConfigReference option"
  | Rev_SetRevision int64
  | Rev_SetSkipDependencyResolution "bool option"
  | Rev_SetDependencyStatus int64 int64 int64
  | Rev_SetWebhookTLSSecretName "string option"
  | Rev_SetCommonLabels "string \<rightharpoonup> string"
  | Rev_SetESSTLSSecretName "string option"
  | Rev_SetTLSServerSecretName "string option"
  | Rev_SetTLSClientSecretName "string option"

fun ProviderRevision_call :: "SetConditionsFn \<Rightarrow> Revision_setter \<Rightarrow> 'm ProviderRevision \<Rightarrow> 'm ProviderRevision" where
  "ProviderRevision_call setc (Rev_SetConditions x) p = ProviderRevision_SetConditions setc x p"
| "ProviderRevision_call setc (Rev_SetObjects x) p = ProviderRevision_SetObjects x p"
| "ProviderRevision_call setc (Rev_SetControllerReference x) p = ProviderRevision_SetControllerReference x p"
| "ProviderRevision_call setc (Rev_SetSource x) p = ProviderRevision_SetSource x p"
| "ProviderRevision_call setc (Rev_SetPackagePullSecrets x) p = ProviderRevision_SetPackagePullSecrets x p"
| "ProviderRevision_call setc (Rev_SetPackagePullPolicy x) p = ProviderRevision_SetPackagePullPolicy x p"
| "ProviderRevision_call setc (Rev_SetDesiredState x) p = ProviderRevision_SetDesiredState x p"
| "ProviderRevision_call setc (Rev_SetIgnoreCrossplaneConstraints x) p = ProviderRevision_SetIgnoreCrossplaneConstraints x p"
| "ProviderRevision_call setc (Rev_SetControllerConfigRef x) p = ProviderRevision_SetControllerConfigRef x p"
| "ProviderRevision_call setc (Rev_SetRevision x) p = ProviderRevision_SetRevision x p"
| "ProviderRevision_call setc (Rev_SetSkipDependencyResolution x) p = ProviderRevision_SetSkipDependencyResolution x p"
| "ProviderRevision_call setc (Rev_SetDependencyStatus found installed invalid) p =
     ProviderRevision_SetDependencyStatus found installed invalid p"
| "ProviderRevision_call setc (Rev_SetWebhookTLSSecretName x) p = ProviderRevision_SetWebhookTLSSecretName x p"
| "ProviderRevision_call setc (Rev_SetCommonLabels x) p = ProviderRevision_SetCommonLabels x p"
| "ProviderRevision_call setc (Rev_SetESSTLSSecretName x) p = ProviderRevision_SetESSTLSSecretName x p"
| "ProviderRevision_call setc (Rev_SetTLSServerSecretName x) p = ProviderRevision_SetTLSServerSecretName x p"
| "ProviderRevision_call setc (Rev_SetTLSClientSecretName x) p = ProviderRevision_SetTLSClientSecretName x p"

fun ConfigurationRevision_call :: "SetConditionsFn \<Rightarrow> Revision_setter \<Rightarrow> 'm ConfigurationRevision \<Rightarrow> 'm ConfigurationRevision" where
  "ConfigurationRevision_call setc (Rev_SetConditions x) p = ConfigurationRevision_SetConditions setc x p"
| "ConfigurationRevision_call setc (Rev_SetObjects x) p = ConfigurationRevision_SetObjects x p"
| "ConfigurationRevision_call setc (Rev_SetControllerReference x) p = ConfigurationRevision_SetControllerReference x p"
| "ConfigurationRevision_call setc (Rev_SetSource x) p = ConfigurationRevision_SetSource x p"
| "ConfigurationRevision_call setc (Rev_SetPackagePullSecrets x) p = ConfigurationRevision_SetPackagePullSecrets x p"
| "ConfigurationRevision_call setc (Rev_SetPackagePullPolicy x) p = ConfigurationRevision_SetPackagePullPolicy x p"
| "ConfigurationRevision_call setc (Rev_SetDesiredState x) p = ConfigurationRevision_SetDesiredState x p"
| "ConfigurationRevision_call setc (Rev_SetIgnoreCrossplaneConstraints x) p = ConfigurationRevision_SetIgnoreCrossplaneConstraints x p"
| "ConfigurationRevision_call setc (Rev_SetControllerConfigRef x) p = ConfigurationRevision_SetControllerConfigRef x p"
| "ConfigurationRevision_call setc (Rev_SetRevision x) p = ConfigurationRevision_SetRevision x p"
| "ConfigurationRevision_call setc (Rev_SetSkipDependencyResolution x) p = ConfigurationRevision_SetSkipDependencyResolution x p"
| "ConfigurationRevision_call setc (Rev_SetDependencyStatus found installed invalid) p =
     ConfigurationRevision_SetDependencyStatus found installed invalid p"
| "ConfigurationRevision_call setc (Rev_SetWebhookTLSSecretName x) p = ConfigurationRevision_SetWebhookTLSSecretName x p"
| "ConfigurationRevision_call setc (Rev_SetCommonLabels x) p = ConfigurationRevision_SetCommonLabels x p"
| "ConfigurationRevision_call setc (Rev_SetESSTLSSecretName x) p = ConfigurationRevision_SetESSTLSSecretName x p"
| "ConfigurationRevision_call setc (Rev_SetTLSServerSecretName x) p = ConfigurationRevision_SetTLSServerSecretName x p"
| "ConfigurationRevision_call setc (Rev_SetTLSClientSecretName x) p = ConfigurationRevision_SetTLSClientSecretName x p"

section \<open>The PackageRevision interface\<close>

text \<open>
  A value of the interface type \<^verbatim>\<open>PackageRevision\<close> is one of the two concrete
  revision types; a method called through the interface runs the method of that type.
\<close>

datatype 'm PackageRevision =
    ProviderRevisionObj "'m ProviderRevision"
  | ConfigurationRevisionObj "'m ConfigurationRevision"

fun PackageRevision_call :: "SetConditionsFn \<Rightarrow> Revision_setter \<Rightarrow> 'm PackageRevision \<Rightarrow> 'm PackageRevision" where
  "PackageRevision_call setc op (ProviderRevisionObj p) =
     ProviderRevisionObj (ProviderRevision_call setc op p)"
| "PackageRevision_call setc op (ConfigurationRevisionObj p) =
     ConfigurationRevisionObj (ConfigurationRevision_call setc op p)"

fun PackageRevision_GetDependencyStatus :: "'m PackageRevision \<Rightarrow> int64 \<times> int64 \<times> int64" where
  "PackageRevision_GetDependencyStatus (ProviderRevisionObj p) = ProviderRevision_GetDependencyStatus p"
| "PackageRevision_GetDependencyStatus (ConfigurationRevisionObj p) = ConfigurationRevision_GetDependencyStatus p"

fun PackageRevision_GetDesiredState :: "'m PackageRevision \<Rightarrow> PackageRevisionDesiredState" where
  "PackageRevision_GetDesiredState (ProviderRevisionObj p) = ProviderRevision_GetDesiredState p"
| "PackageRevision_GetDesiredState (ConfigurationRevisionObj p) = ConfigurationRevision_GetDesiredState p"

fun PackageRevision_GetRevision :: "'m PackageRevision \<Rightarrow> int64" where
  "PackageRevision_GetRevision (ProviderRevisionObj p) = ProviderRevision_GetRevision p"
| "PackageRevision_GetRevision (ConfigurationRevisionObj p) = ConfigurationRevision_GetRevision p"

text \<open>A sequence of setter calls on one revision, in order.\<close>

definition PackageRevision_run :: "SetConditionsFn \<Rightarrow> Revision_setter list \<Rightarrow> 'm PackageRevision \<Rightarrow> 'm PackageRevision" where
  "PackageRevision_run setc ops r = foldl (\<lambda>r op. PackageRevision_call setc op r) r ops"

text \<open>A sequence of setter calls on one package, in order.\<close>

definition Provider_run :: "SetConditionsFn \<Rightarrow> Package_setter list \<Rightarrow> 'm Provider \<Rightarrow> 'm Provider" where
  "Provider_run setc ops p = foldl (\<lambda>p op. Provider_call setc op p) p ops"

definition Configuration_run :: "SetConditionsFn \<Rightarrow> Package_setter list \<Rightarrow> 'm Configuration \<Rightarrow> 'm Configuration" where
  "Configuration_run setc ops p = foldl (\<lambda>p op. Configuration_call setc op p) p ops"

section \<open>Zero values\<close>

text \<open>
  What Go's \<^verbatim>\<open>&Provider{}\<close> and its siblings hold: empty strings, nil pointers, nil
  slices and maps, zero counters. The metadata is the unit value here.
\<close>

definition ConditionedStatus_zero :: ConditionedStatus where
  "ConditionedStatus_zero = \<lparr>Conditions = []\<rparr>"

definition PackageStatus_zero :: PackageStatus where
  "PackageStatus_zero = \<lparr>PackageStatus.ConditionedStatus = ConditionedStatus_zero,
     CurrentRevision = [], CurrentIdentifier = []\<rparr>"

definition Provider_zero :: "unit Provider" where
  "Provider_zero = \<lparr>Provider.ObjectMeta = (),
     Provider.Spec = \<lparr>ProviderSpec.Package = [],
       ProviderSpec.RevisionActivationPolicy = None,
       ProviderSpec.RevisionHistoryLimit = None,
       ProviderSpec.PackagePullSecrets = [],
       ProviderSpec.PackagePullPolicy = None,
       ProviderSpec.IgnoreCrossplaneConstraints = None,
       ProviderSpec.SkipDependencyResolution = None,
       ProviderSpec.CommonLabels = Map.empty,
       ProviderSpec.ControllerConfigReference = None\<rparr>,
     Provider.Status = PackageStatus_zero\<rparr>"

definition Configuration_zero :: "unit Configuration" where
  "Configuration_zero = \<lparr>Configuration.ObjectMeta = (),
     Configuration.Spec = \<lparr>ConfigurationSpec.Package = [],
       ConfigurationSpec.RevisionActivationPolicy = None,
       ConfigurationSpec.RevisionHistoryLimit = None,
       ConfigurationSpec.PackagePullSecrets = [],
       ConfigurationSpec.PackagePullPolicy = None,
       ConfigurationSpec.IgnoreCrossplaneConstraints = None,
       ConfigurationSpec.SkipDependencyResolution = None,
       ConfigurationSpec.CommonLabels = Map.empty\<rparr>,
     Configuration.Status = PackageStatus_zero\<rparr>"

definition PackageRevisionSpec_zero :: PackageRevisionSpec where
  "PackageRevisionSpec_zero = \<lparr>PackageRevisionSpec.ControllerConfigReference = None,
     DesiredState = [],
     PackageRevisionSpec.Package = [],
     PackageRevisionSpec.PackagePullSecrets = [],
     PackageRevisionSpec.PackagePullPolicy = None,
     Revision = 0,
     PackageRevisionSpec.IgnoreCrossplaneConstraints = None,
     PackageRevisionSpec.SkipDependencyResolution = None,
     WebhookTLSSecretName = None,
     ESSTLSSecretName = None,
     TLSServerSecretName = None,
     TLSClientSecretName = None,
     PackageRevisionSpec.CommonLabels = Map.empty\<rparr>"

definition PackageRevisionStatus_zero :: PackageRevisionStatus where
  "PackageRevisionStatus_zero = \<lparr>PackageRevisionStatus.ConditionedStatus = ConditionedStatus_zero,
     ControllerRef = \<lparr>ControllerReference.Name = []\<rparr>,
     ObjectRefs = [],
     FoundDependencies = 0,
     InstalledDependencies = 0,
     InvalidDependencies = 0,
     PermissionRequests = []\<rparr>"

definition ProviderRevision_zero :: "unit ProviderRevision" where
  "ProviderRevision_zero = \<lparr>ProviderRevision.ObjectMeta = (),
     ProviderRevision.Spec = PackageRevisionSpec_zero,
     ProviderRevision.Status = PackageRevisionStatus_zero\<rparr>"

definition ConfigurationRevision_zero :: "unit ConfigurationRevision" where
  "ConfigurationRevision_zero = \<lparr>ConfigurationRevision.ObjectMeta = (),
     ConfigurationRevision.Spec = PackageRevisionSpec_zero,
     ConfigurationRevision.Status = PackageRevisionStatus_zero\<rparr>"

lemmas zero_defs =
  ConditionedStatus_zero_def PackageStatus_zero_def Provider_zero_def Configuration_zero_def
  PackageRevisionSpec_zero_def PackageRevisionStatus_zero_def
  ProviderRevision_zero_def ConfigurationRevision_zero_def

section \<open>The dependency counters' bounds\<close>

text \<open>
  The bounds the specification states for a triple (found, installed, invalid), with
  the counters read as signed 64-bit integers.
\<close>

fun dep_bounds :: "int64 \<times> int64 \<times> int64 \<Rightarrow> bool" where
  "dep_bounds (found, installed, invalid) =
     (0 \<le> sint invalid \<and> sint invalid \<le> sint found
      \<and> 0 \<le> sint installed \<and> sint installed \<le> sint found)"

fun setter_keeps_bounds :: "Revision_setter \<Rightarrow> bool" where
  "setter_keeps_bounds (Rev_SetDependencyStatus found installed invalid) =
     dep_bounds (found, installed, invalid)"
| "setter_keeps_bounds _ = True"

section \<open>Fields, for the frame of the setters\<close>

text \<open>
  The fields of a package and of a revision, by name, and what it means for one of them
  to hold the same value in two structs. \<open>Package_setter_fields\<close> and
  \<open>Revision_setter_fields\<close> give the field or fields each setter is named after.
  Configuration has no ControllerConfigReference field: that name is vacuous there.
\<close>

datatype Package_field =
    PF_ObjectMeta
  | PF_Package
  | PF_RevisionActivationPolicy
  | PF_RevisionHistoryLimit
  | PF_PackagePullSecrets
  | PF_PackagePullPolicy
  | PF_IgnoreCrossplaneConstraints
  | PF_SkipDependencyResolution
  | PF_CommonLabels
  | PF_ControllerConfigReference
  | PF_ConditionedStatus
  | PF_CurrentRevision
  | PF_CurrentIdentifier

fun Provider_field_unchanged :: "Package_field \<Rightarrow> 'm Provider \<Rightarrow> 'm Provider \<Rightarrow> bool" where
  "Provider_field_unchanged PF_ObjectMeta p q = (Provider.ObjectMeta p = Provider.ObjectMeta q)"
| "Provider_field_unchanged PF_Package p q =
     (ProviderSpec.Package (Provider.Spec p) = ProviderSpec.Package (Provider.Spec q))"
| "Provider_field_unchanged PF_RevisionActivationPolicy p q =
     (ProviderSpec.RevisionActivationPolicy (Provider.Spec p) = ProviderSpec.RevisionActivationPolicy (Provider.Spec q))"
| "Provider_field_unchanged PF_RevisionHistoryLimit p q =
     (ProviderSpec.RevisionHistoryLimit (Provider.Spec p) = ProviderSpec.RevisionHistoryLimit (Provider.Spec q))"
| "Provider_field_unchanged PF_PackagePullSecrets p q =
     (ProviderSpec.PackagePullSecrets (Provider.Spec p) = ProviderSpec.PackagePullSecrets (Provider.Spec q))"
| "Provider_field_unchanged PF_PackagePullPolicy p q =
     (ProviderSpec.PackagePullPolicy (Provider.Spec p) = ProviderSpec.PackagePullPolicy (Provider.Spec q))"
| "Provider_field_unchanged PF_IgnoreCrossplaneConstraints p q =
     (ProviderSpec.IgnoreCrossplaneConstraints (Provider.Spec p) = ProviderSpec.IgnoreCrossplaneConstraints (Provider.Spec q))"
| "Provider_field_unchanged PF_SkipDependencyResolution p q =
     (ProviderSpec.SkipDependencyResolution (Provider.Spec p) = ProviderSpec.SkipDependencyResolution (Provider.Spec q))"
| "Provider_field_unchanged PF_CommonLabels p q =
     (ProviderSpec.CommonLabels (Provider.Spec p) = ProviderSpec.CommonLabels (Provider.Spec q))"
| "Provider_field_unchanged PF_ControllerConfigReference p q =
     (ProviderSpec.ControllerConfigReference (Provider.Spec p) = ProviderSpec.ControllerConfigReference (Provider.Spec q))"
| "Provider_field_unchanged PF_ConditionedStatus p q =
     (PackageStatus.ConditionedStatus (Provider.Status p) = PackageStatus.ConditionedStatus (Provider.Status q))"
| "Provider_field_unchanged PF_CurrentRevision p q =
     (PackageStatus.CurrentRevision (Provider.Status p) = PackageStatus.CurrentRevision (Provider.Status q))"
| "Provider_field_unchanged PF_CurrentIdentifier p q =
     (PackageStatus.CurrentIdentifier (Provider.Status p) = PackageStatus.CurrentIdentifier (Provider.Status q))"

fun Configuration_field_unchanged :: "Package_field \<Rightarrow> 'm Configuration \<Rightarrow> 'm Configuration \<Rightarrow> bool" where
  "Configuration_field_unchanged PF_ObjectMeta p q = (Configuration.ObjectMeta p = Configuration.ObjectMeta q)"
| "Configuration_field_unchanged PF_Package p q =
     (ConfigurationSpec.Package (Configuration.Spec p) = ConfigurationSpec.Package (Configuration.Spec q))"
| "Configuration_field_unchanged PF_RevisionActivationPolicy p q =
     (ConfigurationSpec.RevisionActivationPolicy (Configuration.Spec p) = ConfigurationSpec.RevisionActivationPolicy (Configuration.Spec q))"
| "Configuration_field_unchanged PF_RevisionHistoryLimit p q =
     (ConfigurationSpec.RevisionHistoryLimit (Configuration.Spec p) = ConfigurationSpec.RevisionHistoryLimit (Configuration.Spec q))"
| "Configuration_field_unchanged PF_PackagePullSecrets p q =
     (ConfigurationSpec.PackagePullSecrets (Configuration.Spec p) = ConfigurationSpec.PackagePullSecrets (Configuration.Spec q))"
| "Configuration_field_unchanged PF_PackagePullPolicy p q =
     (ConfigurationSpec.PackagePullPolicy (Configuration.Spec p) = ConfigurationSpec.PackagePullPolicy (Configuration.Spec q))"
| "Configuration_field_unchanged PF_IgnoreCrossplaneConstraints p q =
     (ConfigurationSpec.IgnoreCrossplaneConstraints (Configuration.Spec p) = ConfigurationSpec.IgnoreCrossplaneConstraints (Configuration.Spec q))"
| "Configuration_field_unchanged PF_SkipDependencyResolution p q =
     (ConfigurationSpec.SkipDependencyResolution (Configuration.Spec p) = ConfigurationSpec.SkipDependencyResolution (Configuration.Spec q))"
| "Configuration_field_unchanged PF_CommonLabels p q =
     (ConfigurationSpec.CommonLabels (Configuration.Spec p) = ConfigurationSpec.CommonLabels (Configuration.Spec q))"
| "Configuration_field_unchanged PF_ControllerConfigReference p q = True"
| "Configuration_field_unchanged PF_ConditionedStatus p q =
     (PackageStatus.ConditionedStatus (Configuration.Status p) = PackageStatus.ConditionedStatus (Configuration.Status q))"
| "Configuration_field_unchanged PF_CurrentRevision p q =
     (PackageStatus.CurrentRevision (Configuration.Status p) = PackageStatus.CurrentRevision (Configuration.Status q))"
| "Configuration_field_unchanged PF_CurrentIdentifier p q =
     (PackageStatus.CurrentIdentifier (Configuration.Status p) = PackageStatus.CurrentIdentifier (Configuration.Status q))"

fun Package_setter_fields :: "Package_setter \<Rightarrow> Package_field list" where
  "Package_setter_fields (Pkg_SetConditions x) = [PF_ConditionedStatus]"
| "Package_setter_fields (Pkg_SetSource x) = [PF_Package]"
| "Package_setter_fields (Pkg_SetActivationPolicy x) = [PF_RevisionActivationPolicy]"
| "Package_setter_fields (Pkg_SetPackagePullSecrets x) = [PF_PackagePullSecrets]"
| "Package_setter_fields (Pkg_SetPackagePullPolicy x) = [PF_PackagePullPolicy]"
| "Package_setter_fields (Pkg_SetRevisionHistoryLimit x) = [PF_RevisionHistoryLimit]"
| "Package_setter_fields (Pkg_SetIgnoreCrossplaneConstraints x) = [PF_IgnoreCrossplaneConstraints]"
| "Package_setter_fields (Pkg_SetControllerConfigRef x) = [PF_ControllerConfigReference]"
| "Package_setter_fields (Pkg_SetCurrentRevision x) = [PF_CurrentRevision]"
| "Package_setter_fields (Pkg_SetCurrentIdentifier x) = [PF_CurrentIdentifier]"
| "Package_setter_fields (Pkg_SetSkipDependencyResolution x) = [PF_SkipDependencyResolution]"
| "Package_setter_fields (Pkg_SetCommonLabels x) = [PF_CommonLabels]"

datatype Revision_field =
    RF_ObjectMeta
  | RF_ControllerConfigReference
  | RF_DesiredState
  | RF_Package
  | RF_PackagePullSecrets
  | RF_PackagePullPolicy
  | RF_Revision
  | RF_IgnoreCrossplaneConstraints
  | RF_SkipDependencyResolution
  | RF_WebhookTLSSecretName
  | RF_ESSTLSSecretName
  | RF_TLSServerSecretName
  | RF_TLSClientSecretName
  | RF_CommonLabels
  | RF_ConditionedStatus
  | RF_ControllerRef
  | RF_ObjectRefs
  | RF_FoundDependencies
  | RF_InstalledDependencies
  | RF_InvalidDependencies
  | RF_PermissionRequests

fun ProviderRevision_field_unchanged :: "Revision_field \<Rightarrow> 'm ProviderRevision \<Rightarrow> 'm ProviderRevision \<Rightarrow> bool" where
  "ProviderRevision_field_unchanged RF_ObjectMeta p q = (ProviderRevision.ObjectMeta p = ProviderRevision.ObjectMeta q)"
| "ProviderRevision_field_unchanged RF_ControllerConfigReference p q =
     (PackageRevisionSpec.ControllerConfigReference (ProviderRevision.Spec p) = PackageRevisionSpec.ControllerConfigReference (ProviderRevision.Spec q))"
| "ProviderRevision_field_unchanged RF_DesiredState p q =
     (PackageRevisionSpec.DesiredState (ProviderRevision.Spec p) = PackageRevisionSpec.DesiredState (ProviderRevision.Spec q))"
| "ProviderRevision_field_unchanged RF_Package p q =
     (PackageRevisionSpec.Package (ProviderRevision.Spec p) = PackageRevisionSpec.Package (ProviderRevision.Spec q))"
| "ProviderRevision_field_unchanged RF_PackagePullSecrets p q =
     (PackageRevisionSpec.PackagePullSecrets (ProviderRevision.Spec p) = PackageRevisionSpec.PackagePullSecrets (ProviderRevision.Spec q))"
| "ProviderRevision_field_unchanged RF_PackagePullPolicy p q =
     (PackageRevisionSpec.PackagePullPolicy (ProviderRevision.Spec p) = PackageRevisionSpec.PackagePullPolicy (ProviderRevision.Spec q))"
| "ProviderRevision_field_unchanged RF_Revision p q =
     (PackageRevisionSpec.Revision (ProviderRevision.Spec p) = PackageRevisionSpec.Revision (ProviderRevision.Spec q))"
| "ProviderRevision_field_unchanged RF_IgnoreCrossplaneConstraints p q =
     (PackageRevisionSpec.IgnoreCrossplaneConstraints (ProviderRevision.Spec p) = PackageRevisionSpec.IgnoreCrossplaneConstraints (ProviderRevision.Spec q))"
| "ProviderRevision_field_unchanged RF_SkipDependencyResolution p q =
     (PackageRevisionSpec.SkipDependencyResolution (ProviderRevision.Spec p) = PackageRevisionSpec.SkipDependencyResolution (ProviderRevision.Spec q))"
| "ProviderRevision_field_unchanged RF_WebhookTLSSecretName p q =
     (PackageRevisionSpec.WebhookTLSSecretName (ProviderRevision.Spec p) = PackageRevisionSpec.WebhookTLSSecretName (ProviderRevision.Spec q))"
| "ProviderRevision_field_unchanged RF_ESSTLSSecretName p q =
     (PackageRevisionSpec.ESSTLSSecretName (ProviderRevision.Spec p) = PackageRevisionSpec.ESSTLSSecretName (ProviderRevision.Spec q))"
| "ProviderRevision_field_unchanged RF_TLSServerSecretName p q =
     (PackageRevisionSpec.TLSServerSecretName (ProviderRevision.Spec p) = PackageRevisionSpec.TLSServerSecretName (ProviderRevision.Spec q))"
| "ProviderRevision_field_unchanged RF_TLSClientSecretName p q =
     (PackageRevisionSpec.TLSClientSecretName (ProviderRevision.Spec p) = PackageRevisionSpec.TLSClientSecretName (ProviderRevision.Spec q))"
| "ProviderRevision_field_unchanged RF_CommonLabels p q =
     (PackageRevisionSpec.CommonLabels (ProviderRevision.Spec p) = PackageRevisionSpec.CommonLabels (ProviderRevision.Spec q))"
| "ProviderRevision_field_unchanged RF_ConditionedStatus p q =
     (PackageRevisionStatus.ConditionedStatus (ProviderRevision.Status p) = PackageRevisionStatus.ConditionedStatus (ProviderRevision.Status q))"
| "ProviderRevision_field_unchanged RF_ControllerRef p q =
     (PackageRevisionStatus.ControllerRef (ProviderRevision.Status p) = PackageRevisionStatus.ControllerRef (ProviderRevision.Status q))"
| "ProviderRevision_field_unchanged RF_ObjectRefs p q =
     (PackageRevisionStatus.ObjectRefs (ProviderRevision.Status p) = PackageRevisionStatus.ObjectRefs (ProviderRevision.Status q))"
| "ProviderRevision_field_unchanged RF_FoundDependencies p q =
     (PackageRevisionStatus.FoundDependencies (ProviderRevision.Status p) = PackageRevisionStatus.FoundDependencies (ProviderRevision.Status q))"
| "ProviderRevision_field_unchanged RF_InstalledDependencies p q =
     (PackageRevisionStatus.InstalledDependencies (ProviderRevision.Status p) = PackageRevisionStatus.InstalledDependencies (ProviderRevision.Status q))"
| "ProviderRevision_field_unchanged RF_InvalidDependencies p q =
     (PackageRevisionStatus.InvalidDependencies (ProviderRevision.Status p) = PackageRevisionStatus.InvalidDependencies (ProviderRevision.Status q))"
| "ProviderRevision_field_unchanged RF_PermissionRequests p q =
     (PackageRevisionStatus.PermissionRequests (ProviderRevision.Status p) = PackageRevisionStatus.PermissionRequests (ProviderRevision.Status q))"

fun ConfigurationRevision_field_unchanged :: "Revision_field \<Rightarrow> 'm ConfigurationRevision \<Rightarrow> 'm ConfigurationRevision \<Rightarrow> bool" where
  "ConfigurationRevision_field_unchanged RF_ObjectMeta p q = (ConfigurationRevision.ObjectMeta p = ConfigurationRevision.ObjectMeta q)"
| "ConfigurationRevision_field_unchanged RF_ControllerConfigReference p q =
     (PackageRevisionSpec.ControllerConfigReference (ConfigurationRevision.Spec p) = PackageRevisionSpec.ControllerConfigReference (ConfigurationRevision.Spec q))"
| "ConfigurationRevision_field_unchanged RF_DesiredState p q =
     (PackageRevisionSpec.DesiredState (ConfigurationRevision.Spec p) = PackageRevisionSpec.DesiredState (ConfigurationRevision.Spec q))"
| "ConfigurationRevision_field_unchanged RF_Package p q =
     (PackageRevisionSpec.Package (ConfigurationRevision.Spec p) = PackageRevisionSpec.Package (ConfigurationRevision.Spec q))"
| "ConfigurationRevision_field_unchanged RF_PackagePullSecrets p q =
     (PackageRevisionSpec.PackagePullSecrets (ConfigurationRevision.Spec p) = PackageRevisionSpec.PackagePullSecrets (ConfigurationRevision.Spec q))"
| "ConfigurationRevision_field_unchanged RF_PackagePullPolicy p q =
     (PackageRevisionSpec.PackagePullPolicy (ConfigurationRevision.Spec p) = PackageRevisionSpec.PackagePullPolicy (ConfigurationRevision.Spec q))"
| "ConfigurationRevision_field_unchanged RF_Revision p q =
     (PackageRevisionSpec.Revision (ConfigurationRevision.Spec p) = PackageRevisionSpec.Revision (ConfigurationRevision.Spec q))"
| "ConfigurationRevision_field_unchanged RF_IgnoreCrossplaneConstraints p q =
     (PackageRevisionSpec.IgnoreCrossplaneConstraints (ConfigurationRevision.Spec p) = PackageRevisionSpec.IgnoreCrossplaneConstraints (ConfigurationRevision.Spec q))"
| "ConfigurationRevision_field_unchanged RF_SkipDependencyResolution p q =
     (PackageRevisionSpec.SkipDependencyResolution (ConfigurationRevision.Spec p) = PackageRevisionSpec.SkipDependencyResolution (ConfigurationRevision.Spec q))"
| "ConfigurationRevision_field_unchanged RF_WebhookTLSSecretName p q =
     (PackageRevisionSpec.WebhookTLSSecretName (ConfigurationRevision.Spec p) = PackageRevisionSpec.WebhookTLSSecretName (ConfigurationRevision.Spec q))"
| "ConfigurationRevision_field_unchanged RF_ESSTLSSecretName p q =
     (PackageRevisionSpec.ESSTLSSecretName (ConfigurationRevision.Spec p) = PackageRevisionSpec.ESSTLSSecretName (ConfigurationRevision.Spec q))"
| "ConfigurationRevision_field_unchanged RF_TLSServerSecretName p q =
     (PackageRevisionSpec.TLSServerSecretName (ConfigurationRevision.Spec p) = PackageRevisionSpec.TLSServerSecretName (ConfigurationRevision.Spec q))"
| "ConfigurationRevision_field_unchanged RF_TLSClientSecretName p q =
     (PackageRevisionSpec.TLSClientSecretName (ConfigurationRevision.Spec p) = PackageRevisionSpec.TLSClientSecretName (ConfigurationRevision.Spec q))"
| "ConfigurationRevision_field_unchanged RF_CommonLabels p q =
     (PackageRevisionSpec.CommonLabels (ConfigurationRevision.Spec p) = PackageRevisionSpec.CommonLabels (ConfigurationRevision.Spec q))"
| "ConfigurationRevision_field_unchanged RF_ConditionedStatus p q =
     (PackageRevisionStatus.ConditionedStatus (ConfigurationRevision.Status p) = PackageRevisionStatus.ConditionedStatus (ConfigurationRevision.Status q))"
| "ConfigurationRevision_field_unchanged RF_ControllerRef p q =
     (PackageRevisionStatus.ControllerRef (ConfigurationRevision.Status p) = PackageRevisionStatus.ControllerRef (ConfigurationRevision.Status q))"
| "ConfigurationRevision_field_unchanged RF_ObjectRefs p q =
     (PackageRevisionStatus.ObjectRefs (ConfigurationRevision.Status p) = PackageRevisionStatus.ObjectRefs (ConfigurationRevision.Status q))"
| "ConfigurationRevision_field_unchanged RF_FoundDependencies p q =
     (PackageRevisionStatus.FoundDependencies (ConfigurationRevision.Status p) = PackageRevisionStatus.FoundDependencies (ConfigurationRevision.Status q))"
| "ConfigurationRevision_field_unchanged RF_InstalledDependencies p q =
     (PackageRevisionStatus.InstalledDependencies (ConfigurationRevision.Status p) = PackageRevisionStatus.InstalledDependencies (ConfigurationRevision.Status q))"
| "ConfigurationRevision_field_unchanged RF_InvalidDependencies p q =
     (PackageRevisionStatus.InvalidDependencies (ConfigurationRevision.Status p) = PackageRevisionStatus.InvalidDependencies (ConfigurationRevision.Status q))"
| "ConfigurationRevision_field_unchanged RF_PermissionRequests p q =
     (PackageRevisionStatus.PermissionRequests (ConfigurationRevision.Status p) = PackageRevisionStatus.PermissionRequests (ConfigurationRevision.Status q))"

fun Revision_setter_fields :: "Revision_setter \<Rightarrow> Revision_field list" where
  "Revision_setter_fields (Rev_SetConditions x) = [RF_ConditionedStatus]"
| "Revision_setter_fields (Rev_SetObjects x) = [RF_ObjectRefs]"
| "Revision_setter_fields (Rev_SetControllerReference x) = [RF_ControllerRef]"
| "Revision_setter_fields (Rev_SetSource x) = [RF_Package]"
| "Revision_setter_fields (Rev_SetPackagePullSecrets x) = [RF_PackagePullSecrets]"
| "Revision_setter_fields (Rev_SetPackagePullPolicy x) = [RF_PackagePullPolicy]"
| "Revision_setter_fields (Rev_SetDesiredState x) = [RF_DesiredState]"
| "Revision_setter_fields (Rev_SetIgnoreCrossplaneConstraints x) = [RF_IgnoreCrossplaneConstraints]"
| "Revision_setter_fields (Rev_SetControllerConfigRef x) = [RF_ControllerConfigReference]"
| "Revision_setter_fields (Rev_SetRevision x) = [RF_Revision]"
| "Revision_setter_fields (Rev_SetSkipDependencyResolution x) = [RF_SkipDependencyResolution]"
| "Revision_setter_fields (Rev_SetDependencyStatus found installed invalid) =
     [RF_FoundDependencies, RF_InstalledDependencies, RF_InvalidDependencies]"
| "Revision_setter_fields (Rev_SetWebhookTLSSecretName x) = [RF_WebhookTLSSecretName]"
| "Revision_setter_fields (Rev_SetCommonLabels x) = [RF_CommonLabels]"
| "Revision_setter_fields (Rev_SetESSTLSSecretName x) = [RF_ESSTLSSecretName]"
| "Revision_setter_fields (Rev_SetTLSServerSecretName x) = [RF_TLSServerSecretName]"
| "Revision_setter_fields (Rev_SetTLSClientSecretName x) = [RF_TLSClientSecretName]"

section \<open>ConditionedStatus\<close>

text \<open>
  The two methods the accessors hand their conditions to, \<^verbatim>\<open>GetCondition\<close> and
  \<^verbatim>\<open>SetConditions\<close> of \<^verbatim>\<open>xpv1.ConditionedStatus\<close>, and \<^verbatim>\<open>Condition.Equal\<close>, belong to
  crossplane-runtime, which is not among the sources and which the specification does
  not describe. They are written here after that library, for the properties that depend
  on what they do; the accessors themselves stay parametric in them.

  \<^verbatim>\<open>Equal\<close>: two conditions are equal if they agree in everything but the last
  transition time.
\<close>

definition Condition_Equal :: "Condition \<Rightarrow> Condition \<Rightarrow> bool" where
  "Condition_Equal c other =
     (Condition.Type c = Condition.Type other
      \<and> Condition.Status c = Condition.Status other
      \<and> Condition.Reason c = Condition.Reason other
      \<and> Condition.Message c = Condition.Message other)"



text \<open>
  \<^verbatim>\<open>SetConditions\<close>, for each supplied condition: every existing condition of its
  type is replaced by it, unless the two are \<^verbatim>\<open>Equal\<close>, in which case the existing one
  stays; if there was none of its type it is appended. The inner loop returns the
  conditions after the replacements and whether one of that type existed.
\<close>

fun SetConditions_inner :: "Condition \<Rightarrow> Condition list \<Rightarrow> Condition list \<times> bool" where
  "SetConditions_inner new [] = ([], False)"
| "SetConditions_inner new (existing # rest) =
     (case SetConditions_inner new rest of
        (rest', exists) \<Rightarrow>
          if Condition.Type existing \<noteq> Condition.Type new then (existing # rest', exists)
          else if Condition_Equal existing new then (existing # rest', True)
          else (new # rest', True))"

definition SetConditions_one :: "Condition \<Rightarrow> Condition list \<Rightarrow> Condition list" where
  "SetConditions_one new conditions =
     (case SetConditions_inner new conditions of
        (conditions', exists) \<Rightarrow> if exists then conditions' else conditions' @ [new])"

definition ConditionedStatus_SetConditions :: SetConditionsFn where
  "ConditionedStatus_SetConditions c s =
     s\<lparr>Conditions := foldl (\<lambda>conditions new. SetConditions_one new conditions) (Conditions s) c\<rparr>"


definition Healthy_True_t1 :: Condition where
  "Healthy_True_t1 = \<lparr>Condition.Type = ''Healthy'', Condition.Status = ''True'',
     LastTransitionTime = ''2023-06-01T00:00:00Z'', Reason = ''HealthyPackageRevision'',
     Message = None\<rparr>"

definition Healthy_False_t0 :: Condition where
  "Healthy_False_t0 = \<lparr>Condition.Type = ''Healthy'', Condition.Status = ''False'',
     LastTransitionTime = ''2023-01-01T00:00:00Z'', Reason = ''UnhealthyPackageRevision'',
     Message = None\<rparr>"

section \<open>Revision lists and GetRevisions\<close>

text \<open>
  \<^verbatim>\<open>GetRevisions\<close> takes the address of a fresh copy of every element of
  \<^verbatim>\<open>p.Items\<close>, so the store is explicit. It holds two kinds of cells. A struct cell
  holds a revision struct; an address is an index into the list of struct cells, and
  allocation appends. \<^verbatim>\<open>Items\<close> is the list of the addresses of the elements of its
  backing array. An interface value is a pointer to a revision, or nil.

  Copying a struct copies the headers of its slices, not their backing arrays. The
  one slice a setter writes through is \<^verbatim>\<open>Status.Conditions\<close> (SetConditions replaces
  its elements in place), so a struct cell holds that slice as its header, beside the
  other fields, and the backing arrays of condition slices are the second kind of
  cell. The \<open>Conditions\<close> list inside \<open>Fields\<close> is not read in the store: the
  conditions of a struct are the elements its header selects. The other fields of
  reference type hold their referent's value: no setter writes through them.
\<close>

type_synonym addr = nat

text \<open>
  A slice header: nil, or the address of a backing array and a length. The capacity
  is the length of the backing array. Slices here begin at the start of their array.
\<close>

datatype slice = NilSlice | Slice addr nat

record 'm cell =
  Fields :: "'m PackageRevision"
  ConditionsSlice :: slice

record 'm store =
  cells :: "'m cell list"
  arrays :: "Condition list list"

text \<open>
  The elements of a slice; \<open>None\<close> for a header that points outside the store or
  beyond its array, which Go excludes.
\<close>

fun slice_elems :: "Condition list list \<Rightarrow> slice \<Rightarrow> Condition list option" where
  "slice_elems arrs NilSlice = Some []"
| "slice_elems arrs (Slice a n) =
     (if a < length arrs \<and> n \<le> length (arrs ! a) then Some (take n (arrs ! a)) else None)"

text \<open>
  \<^verbatim>\<open>SetConditions\<close> on a slice in the store, for one supplied condition: the
  replacements of the inner loop are written into the backing array
  (\<^verbatim>\<open>s.Conditions[i] = new\<close>); \<^verbatim>\<open>append\<close> writes the next element of the array when
  the capacity allows and otherwise allocates a new array with a copy of the elements.
  How much spare capacity a new array gets is the allocator's choice and is left
  out: the new array is as long as the slice.
\<close>

fun slice_SetConditions_one :: "Condition \<Rightarrow> slice \<Rightarrow> Condition list list \<Rightarrow> (slice \<times> Condition list list) option" where
  "slice_SetConditions_one new NilSlice arrs = Some (Slice (length arrs) 1, arrs @ [[new]])"
| "slice_SetConditions_one new (Slice a n) arrs =
     (if a < length arrs \<and> n \<le> length (arrs ! a) then
        (case SetConditions_inner new (take n (arrs ! a)) of
           (elems', exists) \<Rightarrow>
             if exists then Some (Slice a n, arrs[a := elems' @ drop n (arrs ! a)])
             else if n < length (arrs ! a) then Some (Slice a (Suc n), arrs[a := (arrs ! a)[n := new]])
             else Some (Slice (length arrs) (Suc n), arrs @ [elems' @ [new]]))
      else None)"

fun slice_SetConditions :: "Condition list \<Rightarrow> slice \<Rightarrow> Condition list list \<Rightarrow> (slice \<times> Condition list list) option" where
  "slice_SetConditions [] s arrs = Some (s, arrs)"
| "slice_SetConditions (new # c) s arrs =
     (case slice_SetConditions_one new s arrs of
        None \<Rightarrow> None
      | Some (s', arrs') \<Rightarrow> slice_SetConditions c s' arrs')"

definition alloc :: "'a \<Rightarrow> 'a list \<Rightarrow> addr \<times> 'a list" where
  "alloc v h = (length h, h @ [v])"

record ProviderRevisionList =
  Items :: "addr list"

record ConfigurationRevisionList =
  Items :: "addr list"

fun is_ProviderRevision :: "'m PackageRevision \<Rightarrow> bool" where
  "is_ProviderRevision (ProviderRevisionObj r) = True"
| "is_ProviderRevision (ConfigurationRevisionObj r) = False"

text \<open>
  \<^verbatim>\<open>for i, r := range p.Items { r := r; prs[i] = &r }\<close>: each element is read,
  copied into a new variable whose address escapes, and that address stored at index i.
  The copy is of the struct, slice headers included. \<open>None\<close> is returned for a store
  in which an element's address is dangling or holds a revision of the other type,
  which Go's typing excludes.
\<close>

fun ProviderRevisionList_GetRevisions_loop ::
  "nat \<Rightarrow> addr list \<Rightarrow> addr option list \<Rightarrow> 'm cell list \<Rightarrow> (addr option list \<times> 'm cell list) option" where
  "ProviderRevisionList_GetRevisions_loop i [] prs h = Some (prs, h)"
| "ProviderRevisionList_GetRevisions_loop i (a # items) prs h =
     (if a < length h \<and> is_ProviderRevision (Fields (h ! a)) then
        (case alloc (h ! a) h of
           (pr, h') \<Rightarrow> ProviderRevisionList_GetRevisions_loop (Suc i) items (prs[i := Some pr]) h')
      else None)"

definition ProviderRevisionList_GetRevisions ::
  "ProviderRevisionList \<Rightarrow> 'm store \<Rightarrow> (addr option list \<times> 'm store) option" where
  "ProviderRevisionList_GetRevisions p st =
     (case ProviderRevisionList_GetRevisions_loop 0 (ProviderRevisionList.Items p)
             (replicate (length (ProviderRevisionList.Items p)) None) (cells st) of
        None \<Rightarrow> None
      | Some (prs, h') \<Rightarrow> Some (prs, st\<lparr>cells := h'\<rparr>))"

fun ConfigurationRevisionList_GetRevisions_loop ::
  "nat \<Rightarrow> addr list \<Rightarrow> addr option list \<Rightarrow> 'm cell list \<Rightarrow> (addr option list \<times> 'm cell list) option" where
  "ConfigurationRevisionList_GetRevisions_loop i [] prs h = Some (prs, h)"
| "ConfigurationRevisionList_GetRevisions_loop i (a # items) prs h =
     (if a < length h \<and> \<not> is_ProviderRevision (Fields (h ! a)) then
        (case alloc (h ! a) h of
           (pr, h') \<Rightarrow> ConfigurationRevisionList_GetRevisions_loop (Suc i) items (prs[i := Some pr]) h')
      else None)"

definition ConfigurationRevisionList_GetRevisions ::
  "ConfigurationRevisionList \<Rightarrow> 'm store \<Rightarrow> (addr option list \<times> 'm store) option" where
  "ConfigurationRevisionList_GetRevisions p st =
     (case ConfigurationRevisionList_GetRevisions_loop 0 (ConfigurationRevisionList.Items p)
             (replicate (length (ConfigurationRevisionList.Items p)) None) (cells st) of
        None \<Rightarrow> None
      | Some (prs, h') \<Rightarrow> Some (prs, st\<lparr>cells := h'\<rparr>))"

text \<open>A well-formed list: every element's address is in the store and holds its type.\<close>

definition ProviderRevisionList_wf :: "'m store \<Rightarrow> ProviderRevisionList \<Rightarrow> bool" where
  "ProviderRevisionList_wf st p =
     list_all (\<lambda>a. a < length (cells st) \<and> is_ProviderRevision (Fields (cells st ! a)))
       (ProviderRevisionList.Items p)"

definition ConfigurationRevisionList_wf :: "'m store \<Rightarrow> ConfigurationRevisionList \<Rightarrow> bool" where
  "ConfigurationRevisionList_wf st p =
     list_all (\<lambda>a. a < length (cells st) \<and> \<not> is_ProviderRevision (Fields (cells st ! a)))
       (ConfigurationRevisionList.Items p)"

text \<open>SetConditions is the one setter that writes through a slice of the struct.\<close>

fun calls_ConditionedStatus :: "Revision_setter \<Rightarrow> bool" where
  "calls_ConditionedStatus (Rev_SetConditions c) = True"
| "calls_ConditionedStatus _ = False"

text \<open>
  A setter called on an interface value writes the struct the pointer refers to.
  SetConditions works on the struct's Conditions slice in the store; every other
  setter is the method of the concrete type on the struct's fields. On a nil or
  dangling pointer the call panics (\<open>None\<close>).
\<close>

fun PackageRevision_call_cell :: "Revision_setter \<Rightarrow> 'm cell \<Rightarrow> Condition list list \<Rightarrow> ('m cell \<times> Condition list list) option" where
  "PackageRevision_call_cell (Rev_SetConditions c) cell arrs =
     (case slice_SetConditions c (ConditionsSlice cell) arrs of
        None \<Rightarrow> None
      | Some (s', arrs') \<Rightarrow> Some (cell\<lparr>ConditionsSlice := s'\<rparr>, arrs'))"
| "PackageRevision_call_cell op cell arrs =
     Some (cell\<lparr>Fields := PackageRevision_call ConditionedStatus_SetConditions op (Fields cell)\<rparr>, arrs)"

definition PackageRevision_call_at ::
  "Revision_setter \<Rightarrow> addr option \<Rightarrow> 'm store \<Rightarrow> 'm store option" where
  "PackageRevision_call_at op pr st =
     (case pr of
        None \<Rightarrow> None
      | Some a \<Rightarrow>
          if a < length (cells st) then
            (case PackageRevision_call_cell op (cells st ! a) (arrays st) of
               None \<Rightarrow> None
             | Some (cell', arrs') \<Rightarrow> Some \<lparr>cells = (cells st)[a := cell'], arrays = arrs'\<rparr>)
          else None)"

text \<open>
  The revision a struct cell holds, as a value: its fields, with the elements of its
  Conditions slice as its conditions.
\<close>

fun put_Conditions :: "Condition list \<Rightarrow> 'm PackageRevision \<Rightarrow> 'm PackageRevision" where
  "put_Conditions conditions (ProviderRevisionObj p) =
     ProviderRevisionObj (p\<lparr>ProviderRevision.Status := (ProviderRevision.Status p)
       \<lparr>PackageRevisionStatus.ConditionedStatus := \<lparr>Conditions = conditions\<rparr>\<rparr>\<rparr>)"
| "put_Conditions conditions (ConfigurationRevisionObj p) =
     ConfigurationRevisionObj (p\<lparr>ConfigurationRevision.Status := (ConfigurationRevision.Status p)
       \<lparr>PackageRevisionStatus.ConditionedStatus := \<lparr>Conditions = conditions\<rparr>\<rparr>\<rparr>)"

definition cell_value :: "Condition list list \<Rightarrow> 'm cell \<Rightarrow> 'm PackageRevision option" where
  "cell_value arrs cell =
     (case slice_elems arrs (ConditionsSlice cell) of
        None \<Rightarrow> None
      | Some conditions \<Rightarrow> Some (put_Conditions conditions (Fields cell)))"

text \<open>The elements of a list as values, read from the store.\<close>

definition Items_values :: "'m store \<Rightarrow> addr list \<Rightarrow> 'm PackageRevision option list" where
  "Items_values st items = map (\<lambda>a. cell_value (arrays st) (cells st ! a)) items"

section \<open>Retention\<close>

text \<open>
  Modelled from the spec: the revisions retention counts, those with desired state
  Inactive (section 4.1, step 3), read through the PackageRevision interface. The
  Package Reconciler, which enforces retention, is not among the sources.
\<close>

definition inactive_revisions :: "'m PackageRevision list \<Rightarrow> 'm PackageRevision list" where
  "inactive_revisions revs =
     filter (\<lambda>r. PackageRevision_GetDesiredState r = PackageRevisionInactive) revs"

text \<open>
  Modelled from the spec: the order retention deletes in, by revision number, the
  signed value GetRevision returns.
\<close>

definition revision_number :: "'m PackageRevision \<Rightarrow> int" where
  "revision_number r = sint (PackageRevision_GetRevision r)"

text \<open>
  Modelled from the spec: the retention step of the Package Reconciler, whose code is not
  among the sources. Section 4.1, step 3: among the revisions with desired state
  Inactive, if their count exceeds the revision history limit (when one is set), the
  excess is deleted, oldest by revision number first. The function returns the revisions
  selected for deletion, in deletion order; the limit is what the package's
  GetRevisionHistoryLimit returns.
\<close>

definition retention_deletions :: "int64 option \<Rightarrow> 'm PackageRevision list \<Rightarrow> 'm PackageRevision list" where
  "retention_deletions limit revs =
     (case limit of
        None \<Rightarrow> []
      | Some l \<Rightarrow>
          (let inactive = sort_key revision_number (inactive_revisions revs) in
           if int (length inactive) > sint l
           then take (nat (int (length inactive) - sint l)) inactive
           else []))"

section \<open>The persisted schema and the printer columns\<close>

text \<open>
  The CRD \<^verbatim>\<open>pkg.crossplane.io_functionrevisions.yaml\<close> gives the schema of
  PackageRevisionSpec and the printer columns. A stored object is a JSON document; a
  schema constrains the kind of each value and the properties an object must have
  (\<^verbatim>\<open>type\<close>, \<^verbatim>\<open>format\<close>, \<^verbatim>\<open>properties\<close>, \<^verbatim>\<open>required\<close>, \<^verbatim>\<open>items\<close>,
  \<^verbatim>\<open>additionalProperties\<close>). An integer of \<^verbatim>\<open>format: int64\<close> must lie in the range of
  a signed 64-bit integer. The CRD has no \<^verbatim>\<open>enum\<close> or \<^verbatim>\<open>pattern\<close> anywhere. Its
  \<^verbatim>\<open>default\<close> annotations fill in absent members and reject nothing: they are left out.
\<close>

datatype json =
    JNull
  | JBool bool
  | JNum int
  | JStr string
  | JArr "json list"
  | JObj "(string \<times> json) list"

datatype schema =
    SString
  | SInt64
  | SBoolean
  | SArray schema
  | SMap schema
  | SObject "(string \<times> schema) list" "string list"

fun validates :: "schema \<Rightarrow> json \<Rightarrow> bool" where
  "validates SString (JStr s) = True"
| "validates SInt64 (JNum n) = (- (2 ^ 63) \<le> n \<and> n < 2 ^ 63)"
| "validates SBoolean (JBool b) = True"
| "validates (SArray items) (JArr xs) = list_all (validates items) xs"
| "validates (SMap additional) (JObj kvs) = list_all (\<lambda>kv. validates additional (snd kv)) kvs"
| "validates (SObject properties required) (JObj kvs) =
     (list_all (\<lambda>r. r \<in> fst ` set kvs) required
      \<and> list_all (\<lambda>kv. case map_of properties (fst kv) of
                          None \<Rightarrow> True
                        | Some s \<Rightarrow> validates s (snd kv)) kvs)"
| "validates _ _ = False"

text \<open>\<^verbatim>\<open>spec\<close> of the CRD (lines 62 to 154), property by property.\<close>

definition PackageRevisionSpec_schema :: schema where
  "PackageRevisionSpec_schema = SObject
     [(''commonLabels'', SMap SString),
      (''controllerConfigRef'', SObject [(''name'', SString)] [''name'']),
      (''desiredState'', SString),
      (''essTLSSecretName'', SString),
      (''ignoreCrossplaneConstraints'', SBoolean),
      (''image'', SString),
      (''packagePullPolicy'', SString),
      (''packagePullSecrets'', SArray (SObject [(''name'', SString)] [])),
      (''revision'', SInt64),
      (''skipDependencyResolution'', SBoolean),
      (''tlsClientSecretName'', SString),
      (''tlsServerSecretName'', SString),
      (''webhookTLSSecretName'', SString)]
     [''desiredState'', ''image'', ''revision'']"

text \<open>
  \<^verbatim>\<open>additionalPrinterColumns\<close> (lines 19 to 40). A JSONPath is a list of steps: a child
  by name, or the filter \<^verbatim>\<open>[?(@.key=='value')]\<close> over the elements of an array.
\<close>

datatype jsonpath_step =
    Child string
  | FilterEq string string

record PrinterColumn =
  jsonPath :: "jsonpath_step list"
  name :: string
  type :: string

definition additionalPrinterColumns :: "PrinterColumn list" where
  "additionalPrinterColumns =
     [\<lparr>jsonPath = [Child ''status'', Child ''conditions'', FilterEq ''type'' ''Healthy'', Child ''status''],
        name = ''HEALTHY'', type = ''string''\<rparr>,
      \<lparr>jsonPath = [Child ''spec'', Child ''revision''], name = ''REVISION'', type = ''string''\<rparr>,
      \<lparr>jsonPath = [Child ''spec'', Child ''image''], name = ''IMAGE'', type = ''string''\<rparr>,
      \<lparr>jsonPath = [Child ''spec'', Child ''desiredState''], name = ''STATE'', type = ''string''\<rparr>,
      \<lparr>jsonPath = [Child ''status'', Child ''foundDependencies''], name = ''DEP-FOUND'', type = ''string''\<rparr>,
      \<lparr>jsonPath = [Child ''status'', Child ''installedDependencies''], name = ''DEP-INSTALLED'', type = ''string''\<rparr>,
      \<lparr>jsonPath = [Child ''metadata'', Child ''creationTimestamp''], name = ''AGE'', type = ''date''\<rparr>]"

text \<open>The values a path selects in a document: each step maps over the current matches.\<close>

fun member :: "string \<Rightarrow> json \<Rightarrow> json list" where
  "member k (JObj kvs) = (case map_of kvs k of None \<Rightarrow> [] | Some v \<Rightarrow> [v])"
| "member k _ = []"

fun eval_step :: "jsonpath_step \<Rightarrow> json \<Rightarrow> json list" where
  "eval_step (Child k) v = member k v"
| "eval_step (FilterEq k s) (JArr xs) = filter (\<lambda>x. member k x = [JStr s]) xs"
| "eval_step (FilterEq k s) _ = []"

fun eval_path :: "jsonpath_step list \<Rightarrow> json list \<Rightarrow> json list" where
  "eval_path [] vs = vs"
| "eval_path (st # path) vs = eval_path path (concat (map (eval_step st) vs))"

definition column_cells :: "string \<Rightarrow> json \<Rightarrow> json list option" where
  "column_cells col doc =
     (case find (\<lambda>c. name c = col) additionalPrinterColumns of
        None \<Rightarrow> None
      | Some c \<Rightarrow> Some (eval_path (jsonPath c) [doc]))"

text \<open>
  A store with two provider revisions and one configuration revision; the first
  holds one condition, Healthy with status False.
\<close>

definition example_store :: "unit store" where
  "example_store =
     \<lparr>cells =
        [\<lparr>Fields = ProviderRevisionObj (ProviderRevision_SetRevision 1 ProviderRevision_zero),
          ConditionsSlice = Slice 0 1\<rparr>,
         \<lparr>Fields = ProviderRevisionObj (ProviderRevision_SetRevision 2 ProviderRevision_zero),
          ConditionsSlice = NilSlice\<rparr>,
         \<lparr>Fields = ConfigurationRevisionObj (ConfigurationRevision_SetRevision 1 ConfigurationRevision_zero),
          ConditionsSlice = NilSlice\<rparr>],
      arrays = [[Healthy_False_t0]]\<rparr>"

text \<open>That store after GetRevisions of the provider revisions.\<close>

definition example_store_copied :: "unit store" where
  "example_store_copied =
     \<lparr>cells = cells example_store @ [cells example_store ! 0, cells example_store ! 1],
      arrays = [[Healthy_False_t0]]\<rparr>"

text \<open>And after SetConditions(Healthy True) through the first returned pointer.\<close>

definition example_store_rewritten :: "unit store" where
  "example_store_rewritten =
     \<lparr>cells = cells example_store @ [cells example_store ! 0, cells example_store ! 1],
      arrays = [[Healthy_True_t1]]\<rparr>"

text \<open>
  Modelled from the spec: the effective activation policy of a package. Section 3 gives
  the field as "activationPolicy: enum {Automatic, Manual}; default Automatic": a
  package whose policy is not set has the policy Automatic. What applies the default
  (the package CRDs and the Package Reconciler) is not among the sources.
\<close>

definition effective_ActivationPolicy :: "RevisionActivationPolicy option \<Rightarrow> RevisionActivationPolicy" where
  "effective_ActivationPolicy a = (case a of None \<Rightarrow> AutomaticActivation | Some policy \<Rightarrow> policy)"

text \<open>Whether a call is SetActivationPolicy.\<close>

fun sets_activation_policy :: "Package_setter \<Rightarrow> bool" where
  "sets_activation_policy (Pkg_SetActivationPolicy a) = True"
| "sets_activation_policy _ = False"

text \<open>Three revisions of one package, for examples: 1 and 2 parked, 3 active.\<close>

definition example_revisions :: "unit PackageRevision list" where
  "example_revisions =
     [ProviderRevisionObj (ProviderRevision_SetDesiredState PackageRevisionInactive
        (ProviderRevision_SetRevision 2 ProviderRevision_zero)),
      ProviderRevisionObj (ProviderRevision_SetDesiredState PackageRevisionActive
        (ProviderRevision_SetRevision 3 ProviderRevision_zero)),
      ProviderRevisionObj (ProviderRevision_SetDesiredState PackageRevisionInactive
        (ProviderRevision_SetRevision 1 ProviderRevision_zero))]"

text \<open>A stored revision document, for examples.\<close>

definition example_document :: json where
  "example_document = JObj
     [(''spec'', JObj [(''desiredState'', JStr ''Active''),
                      (''image'', JStr ''img:v2''),
                      (''revision'', JNum 2)]),
      (''status'', JObj [(''conditions'',
                          JArr [JObj [(''type'', JStr ''Installed''), (''status'', JStr ''True'')],
                                JObj [(''type'', JStr ''Healthy''), (''status'', JStr ''False'')]]),
                        (''foundDependencies'', JNum 3),
                        (''installedDependencies'', JNum 2)])]"

section \<open>Verified properties\<close>

lemma RefNames_loop_eq:
  "length out = i + length refs \<Longrightarrow>
   RefNames_loop i refs out = take i out @ map LocalObjectReference.Name refs"
proof (induction refs arbitrary: i out)
  case Nil
  then show ?case by simp
next
  case (Cons r refs)
  have len: "length (out[i := LocalObjectReference.Name r]) = Suc i + length refs"
    using Cons.prems by simp
  have i_lt: "i < length out"
    using Cons.prems by simp
  have "take (Suc i) (out[i := LocalObjectReference.Name r]) = take i out @ [LocalObjectReference.Name r]"
    using i_lt by (simp add: take_Suc_conv_app_nth)
  then show ?case
    using Cons.IH [OF len] by simp
qed

lemma RefNames_map: "RefNames refs = map LocalObjectReference.Name refs"
  by (simp add: RefNames_def RefNames_loop_eq)

text \<open>
  C9: RefNames returns a slice as long as its argument whose i-th element is the
  name of the i-th reference, in the same order, and the empty slice for the empty slice.
\<close>

theorem RefNames_correct:
  "length (RefNames refs) = length refs
   \<and> (\<forall>i. i < length refs \<longrightarrow> RefNames refs ! i = LocalObjectReference.Name (refs ! i))
   \<and> RefNames [] = []"
  by (simp add: RefNames_map)

theorem RefNames_correct_witness:
  "length (RefNames [\<lparr>LocalObjectReference.Name = ''a''\<rparr>, \<lparr>LocalObjectReference.Name = ''b''\<rparr>]) = 2
   \<and> RefNames [\<lparr>LocalObjectReference.Name = ''a''\<rparr>, \<lparr>LocalObjectReference.Name = ''b''\<rparr>] ! 1 = ''b''"
  using RefNames_correct [of "[\<lparr>LocalObjectReference.Name = ''a''\<rparr>, \<lparr>LocalObjectReference.Name = ''b''\<rparr>]"]
  by simp

subsection \<open>ConditionedStatus\<close>

lemma SetConditions_inner_eq:
  "SetConditions_inner new L =
     (map (\<lambda>e. if Condition.Type e = Condition.Type new \<and> \<not> Condition_Equal e new then new else e) L,
      \<exists>e\<in>set L. Condition.Type e = Condition.Type new)"
  by (induction L) (auto split: prod.splits)

lemma SetConditions_one_eq:
  "SetConditions_one new L =
     (if \<exists>e\<in>set L. Condition.Type e = Condition.Type new
      then map (\<lambda>e. if Condition.Type e = Condition.Type new \<and> \<not> Condition_Equal e new then new else e) L
      else L @ [new])"
proof -
  have "(\<forall>e\<in>set L. Condition.Type e \<noteq> Condition.Type new) \<Longrightarrow>
      map (\<lambda>e. if Condition.Type e = Condition.Type new \<and> \<not> Condition_Equal e new then new else e) L = L"
    by (induction L) simp_all
  then show ?thesis
    by (auto simp: SetConditions_one_def SetConditions_inner_eq)
qed













text \<open>SetConditions on a slice in the store computes what SetConditions computes on the list of its elements.\<close>

lemma SetConditions_inner_length: "length (fst (SetConditions_inner new L)) = length L"
  by (simp add: SetConditions_inner_eq)

lemma slice_SetConditions_one_refines:
  assumes "slice_elems arrs s = Some es"
  shows "\<exists>s' arrs'. slice_SetConditions_one new s arrs = Some (s', arrs')
     \<and> slice_elems arrs' s' = Some (SetConditions_one new es)"
proof (cases s)
  case NilSlice
  with assms show ?thesis
    by (simp add: SetConditions_one_eq)
next
  case (Slice a n)
  with assms have a: "a < length arrs" and n: "n \<le> length (arrs ! a)" and es: "es = take n (arrs ! a)"
    by (simp_all split: if_splits)
  let ?f = "\<lambda>e. if Condition.Type e = Condition.Type new \<and> \<not> Condition_Equal e new then new else e"
  show ?thesis
  proof (cases "\<exists>e\<in>set es. Condition.Type e = Condition.Type new")
    case True
    have "slice_SetConditions_one new s arrs = Some (Slice a n, arrs[a := map ?f es @ drop n (arrs ! a)])"
      using Slice a n es True by (simp add: SetConditions_inner_eq)
    moreover have "slice_elems (arrs[a := map ?f es @ drop n (arrs ! a)]) (Slice a n) = Some (map ?f es)"
      using a n es by simp
    ultimately show ?thesis
      using True by (simp add: SetConditions_one_eq)
  next
    case False
    then have idm: "map ?f es = es"
      by (induction es) simp_all
    show ?thesis
    proof (cases "n < length (arrs ! a)")
      case True
      have "slice_SetConditions_one new s arrs = Some (Slice a (Suc n), arrs[a := (arrs ! a)[n := new]])"
        using Slice a n es False True by (simp add: SetConditions_inner_eq)
      moreover have "slice_elems (arrs[a := (arrs ! a)[n := new]]) (Slice a (Suc n)) = Some (es @ [new])"
        using a True es by (simp add: take_Suc_conv_app_nth)
      ultimately show ?thesis
        using False by (simp add: SetConditions_one_eq)
    next
      case nf: False
      have "slice_SetConditions_one new s arrs = Some (Slice (length arrs) (Suc n), arrs @ [es @ [new]])"
        using Slice a n es False nf idm by (simp add: SetConditions_inner_eq)
      moreover have "length es = n"
        using es n by simp
      then have "slice_elems (arrs @ [es @ [new]]) (Slice (length arrs) (Suc n)) = Some (es @ [new])"
        by simp
      ultimately show ?thesis
        using False by (simp add: SetConditions_one_eq)
    qed
  qed
qed

lemma slice_SetConditions_refines:
  "slice_elems arrs s = Some es \<Longrightarrow>
   \<exists>s' arrs'. slice_SetConditions c s arrs = Some (s', arrs')
     \<and> slice_elems arrs' s' = Some (foldl (\<lambda>conditions new. SetConditions_one new conditions) es c)"
proof (induction c arbitrary: s arrs es)
  case Nil
  then show ?case by simp
next
  case (Cons new c)
  from slice_SetConditions_one_refines [OF Cons.prems, of new]
  obtain s1 arrs1 where one: "slice_SetConditions_one new s arrs = Some (s1, arrs1)"
    and el: "slice_elems arrs1 s1 = Some (SetConditions_one new es)"
    by blast
  from Cons.IH [OF el] one show ?case
    by simp
qed

subsection \<open>GetRevisions\<close>

lemma ProviderRevisionList_loop_eq:
  "list_all (\<lambda>a. a < length h \<and> is_ProviderRevision (Fields (h ! a))) items \<Longrightarrow>
   length prs = i + length items \<Longrightarrow>
   ProviderRevisionList_GetRevisions_loop i items prs h =
     Some (take i prs @ map Some [length h ..< length h + length items],
           h @ map (\<lambda>a. h ! a) items)"
proof (induction items arbitrary: i prs h)
  case Nil
  then show ?case by simp
next
  case (Cons a items)
  from Cons.prems(1) have a_lt: "a < length h" and a_prov: "is_ProviderRevision (Fields (h ! a))"
    and rest: "list_all (\<lambda>a. a < length h \<and> is_ProviderRevision (Fields (h ! a))) items"
    by simp_all
  let ?h = "h @ [h ! a]"
  let ?prs = "prs[i := Some (length h)]"
  have rest': "list_all (\<lambda>a. a < length ?h \<and> is_ProviderRevision (Fields (?h ! a))) items"
    using rest by (induction items) (simp_all add: nth_append)
  have len: "length ?prs = Suc i + length items"
    using Cons.prems(2) by simp
  have i_lt: "i < length prs"
    using Cons.prems(2) by simp
  have tk: "take (Suc i) ?prs = take i prs @ [Some (length h)]"
    using i_lt by (simp add: take_Suc_conv_app_nth)
  have vals: "map (\<lambda>a. ?h ! a) items = map (\<lambda>a. h ! a) items"
    using rest by (induction items) (simp_all add: nth_append)
  have vals': "?h @ map (\<lambda>a. ?h ! a) items = h @ map (\<lambda>a. h ! a) (a # items)"
    unfolding vals by simp
  have upt: "[length h ..< length h + length (a # items)] = length h # [length ?h ..< length ?h + length items]"
    by (subst upt_rec) simp
  have "ProviderRevisionList_GetRevisions_loop i (a # items) prs h =
        ProviderRevisionList_GetRevisions_loop (Suc i) items ?prs ?h"
    using a_lt a_prov by (simp add: alloc_def)
  also have "\<dots> = Some (take (Suc i) ?prs @ map Some [length ?h ..< length ?h + length items],
                        ?h @ map (\<lambda>a. ?h ! a) items)"
    by (rule Cons.IH [OF rest' len])
  also have "\<dots> = Some (take i prs @ map Some [length h ..< length h + length (a # items)],
                        h @ map (\<lambda>a. h ! a) (a # items))"
    unfolding tk upt vals' by simp
  finally show ?case .
qed

lemma ProviderRevisionList_GetRevisions_eq:
  "ProviderRevisionList_wf st p \<Longrightarrow>
   ProviderRevisionList_GetRevisions p st =
     Some (map Some [length (cells st) ..< length (cells st) + length (ProviderRevisionList.Items p)],
           st\<lparr>cells := cells st @ map (\<lambda>a. cells st ! a) (ProviderRevisionList.Items p)\<rparr>)"
  by (simp add: ProviderRevisionList_GetRevisions_def ProviderRevisionList_wf_def
      ProviderRevisionList_loop_eq)

lemma ConfigurationRevisionList_loop_eq:
  "list_all (\<lambda>a. a < length h \<and> \<not> is_ProviderRevision (Fields (h ! a))) items \<Longrightarrow>
   length prs = i + length items \<Longrightarrow>
   ConfigurationRevisionList_GetRevisions_loop i items prs h =
     Some (take i prs @ map Some [length h ..< length h + length items],
           h @ map (\<lambda>a. h ! a) items)"
proof (induction items arbitrary: i prs h)
  case Nil
  then show ?case by simp
next
  case (Cons a items)
  from Cons.prems(1) have a_lt: "a < length h" and a_prov: "\<not> is_ProviderRevision (Fields (h ! a))"
    and rest: "list_all (\<lambda>a. a < length h \<and> \<not> is_ProviderRevision (Fields (h ! a))) items"
    by simp_all
  let ?h = "h @ [h ! a]"
  let ?prs = "prs[i := Some (length h)]"
  have rest': "list_all (\<lambda>a. a < length ?h \<and> \<not> is_ProviderRevision (Fields (?h ! a))) items"
    using rest by (induction items) (simp_all add: nth_append)
  have len: "length ?prs = Suc i + length items"
    using Cons.prems(2) by simp
  have i_lt: "i < length prs"
    using Cons.prems(2) by simp
  have tk: "take (Suc i) ?prs = take i prs @ [Some (length h)]"
    using i_lt by (simp add: take_Suc_conv_app_nth)
  have vals: "map (\<lambda>a. ?h ! a) items = map (\<lambda>a. h ! a) items"
    using rest by (induction items) (simp_all add: nth_append)
  have vals': "?h @ map (\<lambda>a. ?h ! a) items = h @ map (\<lambda>a. h ! a) (a # items)"
    unfolding vals by simp
  have upt: "[length h ..< length h + length (a # items)] = length h # [length ?h ..< length ?h + length items]"
    by (subst upt_rec) simp
  have "ConfigurationRevisionList_GetRevisions_loop i (a # items) prs h =
        ConfigurationRevisionList_GetRevisions_loop (Suc i) items ?prs ?h"
    using a_lt a_prov by (simp add: alloc_def)
  also have "\<dots> = Some (take (Suc i) ?prs @ map Some [length ?h ..< length ?h + length items],
                        ?h @ map (\<lambda>a. ?h ! a) items)"
    by (rule Cons.IH [OF rest' len])
  also have "\<dots> = Some (take i prs @ map Some [length h ..< length h + length (a # items)],
                        h @ map (\<lambda>a. h ! a) (a # items))"
    unfolding tk upt vals' by simp
  finally show ?case .
qed

lemma ConfigurationRevisionList_GetRevisions_eq:
  "ConfigurationRevisionList_wf st p \<Longrightarrow>
   ConfigurationRevisionList_GetRevisions p st =
     Some (map Some [length (cells st) ..< length (cells st) + length (ConfigurationRevisionList.Items p)],
           st\<lparr>cells := cells st @ map (\<lambda>a. cells st ! a) (ConfigurationRevisionList.Items p)\<rparr>)"
  by (simp add: ConfigurationRevisionList_GetRevisions_def ConfigurationRevisionList_wf_def
      ConfigurationRevisionList_loop_eq)


lemma PackageRevision_call_cell_fields:
  "\<not> calls_ConditionedStatus op \<Longrightarrow>
   PackageRevision_call_cell op cell arrs =
     Some (cell\<lparr>Fields := PackageRevision_call ConditionedStatus_SetConditions op (Fields cell)\<rparr>, arrs)"
  by (cases op) simp_all

lemma Items_values_agree:
  "list_all (\<lambda>a. a < n) items \<Longrightarrow> \<forall>a<n. cells st2 ! a = cells st1 ! a \<Longrightarrow>
   arrays st2 = arrays st1 \<Longrightarrow> Items_values st2 items = Items_values st1 items"
  by (simp add: Items_values_def list_all_iff)

lemma call_at_cells:
  assumes "PackageRevision_call_at op (Some a) st = Some st2"
  shows "length (cells st2) = length (cells st) \<and> (\<forall>b. b \<noteq> a \<longrightarrow> cells st2 ! b = cells st ! b)"
  using assms
  by (auto simp: PackageRevision_call_at_def split: if_splits option.splits)

lemma call_at_fields:
  assumes "\<not> calls_ConditionedStatus op" and "a < length (cells st)"
  shows "\<exists>st2. PackageRevision_call_at op (Some a) st = Some st2
     \<and> arrays st2 = arrays st
     \<and> ConditionsSlice (cells st2 ! a) = ConditionsSlice (cells st ! a)
     \<and> Fields (cells st2 ! a) = PackageRevision_call ConditionedStatus_SetConditions op (Fields (cells st ! a))"
  using assms
  by (simp add: PackageRevision_call_at_def PackageRevision_call_cell_fields)

lemma GetRevisions_result_props:
  fixes st :: "'m store"
  assumes valid: "list_all (\<lambda>a. a < length (cells st)) items"
  defines "prs \<equiv> map Some [length (cells st) ..< length (cells st) + length items]"
  defines "st' \<equiv> st\<lparr>cells := cells st @ map (\<lambda>a. cells st ! a) items\<rparr>"
  shows "length prs = length items
   \<and> (\<forall>i<length items. \<exists>a. prs ! i = Some a \<and> a \<notin> set items \<and> length (cells st) \<le> a
         \<and> a < length (cells st') \<and> cells st' ! a = cells st ! (items ! i))
   \<and> distinct prs
   \<and> (\<forall>a<length (cells st). cells st' ! a = cells st ! a)
   \<and> arrays st' = arrays st
   \<and> (\<forall>i<length items. \<forall>op. \<not> calls_ConditionedStatus op \<longrightarrow>
         (\<exists>st''. PackageRevision_call_at op (prs ! i) st' = Some st''
            \<and> (\<forall>a<length (cells st). cells st'' ! a = cells st ! a)
            \<and> arrays st'' = arrays st
            \<and> Items_values st'' items = Items_values st items))
   \<and> (\<forall>i<length items. \<forall>op st''. PackageRevision_call_at op (prs ! i) st' = Some st'' \<longrightarrow>
         (\<forall>a<length (cells st). cells st'' ! a = cells st ! a))"
proof -
  have fresh: "\<And>a. length (cells st) \<le> a \<Longrightarrow> a \<notin> set items"
    using valid by (auto simp: list_all_iff)
  have p: "\<And>i. i < length items \<Longrightarrow> prs ! i = Some (length (cells st) + i)"
    by (simp add: prs_def)
  have len': "length (cells st') = length (cells st) + length items"
    by (simp add: st'_def)
  have c1: "length prs = length items"
    by (simp add: prs_def)
  have c2: "\<forall>i<length items. \<exists>a. prs ! i = Some a \<and> a \<notin> set items \<and> length (cells st) \<le> a
         \<and> a < length (cells st') \<and> cells st' ! a = cells st ! (items ! i)"
  proof (intro allI impI)
    fix i assume i: "i < length items"
    have "length (cells st) + i \<notin> set items" by (rule fresh) simp
    moreover have "cells st' ! (length (cells st) + i) = cells st ! (items ! i)"
      using i by (simp add: st'_def)
    ultimately show "\<exists>a. prs ! i = Some a \<and> a \<notin> set items \<and> length (cells st) \<le> a
         \<and> a < length (cells st') \<and> cells st' ! a = cells st ! (items ! i)"
      using p [OF i] i len' by simp
  qed
  have c3: "distinct prs"
    by (simp add: prs_def distinct_map)
  have c4: "\<forall>a<length (cells st). cells st' ! a = cells st ! a"
    by (simp add: st'_def nth_append)
  have c5: "arrays st' = arrays st"
    by (simp add: st'_def)
  have c7: "\<forall>i<length items. \<forall>op st''. PackageRevision_call_at op (prs ! i) st' = Some st'' \<longrightarrow>
         (\<forall>a<length (cells st). cells st'' ! a = cells st ! a)"
  proof (intro allI impI)
    fix i op st'' a
    assume i: "i < length items" and call: "PackageRevision_call_at op (prs ! i) st' = Some st''"
      and a: "a < length (cells st)"
    from call_at_cells [OF call [unfolded p [OF i]]] a
    have "cells st'' ! a = cells st' ! a" by simp
    with c4 a show "cells st'' ! a = cells st ! a" by simp
  qed
  have c6: "\<forall>i<length items. \<forall>op. \<not> calls_ConditionedStatus op \<longrightarrow>
         (\<exists>st''. PackageRevision_call_at op (prs ! i) st' = Some st''
            \<and> (\<forall>a<length (cells st). cells st'' ! a = cells st ! a)
            \<and> arrays st'' = arrays st
            \<and> Items_values st'' items = Items_values st items)"
  proof (intro allI impI)
    fix i op assume i: "i < length items" and op: "\<not> calls_ConditionedStatus op"
    have lt: "length (cells st) + i < length (cells st')"
      using i len' by simp
    from call_at_fields [OF op lt] obtain st''
      where call: "PackageRevision_call_at op (Some (length (cells st) + i)) st' = Some st''"
        and arr: "arrays st'' = arrays st'"
      by blast
    have call': "PackageRevision_call_at op (prs ! i) st' = Some st''"
      using call p [OF i] by simp
    from c7 i call' have old: "\<forall>a<length (cells st). cells st'' ! a = cells st ! a"
      by blast
    have arr': "arrays st'' = arrays st"
      using arr c5 by simp
    have "Items_values st'' items = Items_values st items"
      using valid old arr' by (rule Items_values_agree)
    with call' old arr' show "\<exists>st''. PackageRevision_call_at op (prs ! i) st' = Some st''
            \<and> (\<forall>a<length (cells st). cells st'' ! a = cells st ! a)
            \<and> arrays st'' = arrays st
            \<and> Items_values st'' items = Items_values st items"
      by blast
  qed
  from c1 c2 c3 c4 c5 c6 c7 show ?thesis by (intro conjI)
qed


lemma example_store_wf:
  "ProviderRevisionList_wf example_store \<lparr>ProviderRevisionList.Items = [0, 1]\<rparr>"
  "ConfigurationRevisionList_wf example_store \<lparr>ConfigurationRevisionList.Items = [2]\<rparr>"
  by (simp_all add: ProviderRevisionList_wf_def ConfigurationRevisionList_wf_def example_store_def)

lemma example_store_GetRevisions:
  "ProviderRevisionList_GetRevisions \<lparr>ProviderRevisionList.Items = [0, 1]\<rparr> example_store
     = Some ([Some 3, Some 4], example_store_copied)"
  unfolding ProviderRevisionList_GetRevisions_eq [OF example_store_wf(1)]
  by (simp add: example_store_copied_def example_store_def upt_rec)

lemma example_store_SetConditions:
  "PackageRevision_call_at (Rev_SetConditions [Healthy_True_t1]) (Some 3) example_store_copied
     = Some example_store_rewritten"
proof -
  have "\<not> Condition_Equal Healthy_False_t0 Healthy_True_t1"
    by (simp add: Condition_Equal_def Healthy_False_t0_def Healthy_True_t1_def)
  then show ?thesis
    by (simp add: PackageRevision_call_at_def example_store_copied_def example_store_rewritten_def
        example_store_def Healthy_False_t0_def Healthy_True_t1_def)
qed

text \<open>
  C4 fails as stated: the copy GetRevisions makes of a struct shares the backing
  array of its Conditions slice with the element of Items it was copied from, and
  SetConditions through the returned pointer replaces a condition of that element in
  place. In the example the first element of Items holds Healthy = False before and
  Healthy = True after the call on its copy.
\<close>

theorem GetRevisions_copy_shares_conditions:
  "ProviderRevisionList_wf example_store \<lparr>ProviderRevisionList.Items = [0, 1]\<rparr>
   \<and> ProviderRevisionList_GetRevisions \<lparr>ProviderRevisionList.Items = [0, 1]\<rparr> example_store
       = Some ([Some 3, Some 4], example_store_copied)
   \<and> PackageRevision_call_at (Rev_SetConditions [Healthy_True_t1]) (Some 3) example_store_copied
       = Some example_store_rewritten
   \<and> cell_value (arrays example_store) (cells example_store ! 0)
       = Some (put_Conditions [Healthy_False_t0]
           (ProviderRevisionObj (ProviderRevision_SetRevision 1 ProviderRevision_zero)))
   \<and> cell_value (arrays example_store_rewritten) (cells example_store_rewritten ! 0)
       = Some (put_Conditions [Healthy_True_t1]
           (ProviderRevisionObj (ProviderRevision_SetRevision 1 ProviderRevision_zero)))
   \<and> Items_values example_store_rewritten [0, 1] \<noteq> Items_values example_store [0, 1]"
proof -
  note wf = example_store_wf(1)
  note g = example_store_GetRevisions
  note s = example_store_SetConditions
  have v0: "cell_value (arrays example_store) (cells example_store ! 0)
       = Some (put_Conditions [Healthy_False_t0]
           (ProviderRevisionObj (ProviderRevision_SetRevision 1 ProviderRevision_zero)))"
    by (simp add: cell_value_def example_store_def)
  have v1: "cell_value (arrays example_store_rewritten) (cells example_store_rewritten ! 0)
       = Some (put_Conditions [Healthy_True_t1]
           (ProviderRevisionObj (ProviderRevision_SetRevision 1 ProviderRevision_zero)))"
    by (simp add: cell_value_def example_store_rewritten_def example_store_def)
  have d: "Healthy_True_t1 \<noteq> Healthy_False_t0"
    by (simp add: Healthy_False_t0_def Healthy_True_t1_def)
  have "put_Conditions [Healthy_True_t1]
           (ProviderRevisionObj (ProviderRevision_SetRevision 1 ProviderRevision_zero))
      \<noteq> put_Conditions [Healthy_False_t0]
           (ProviderRevisionObj (ProviderRevision_SetRevision 1 ProviderRevision_zero))"
    using d by (simp add: accessor_defs zero_defs)
  with v0 v1 have n: "Items_values example_store_rewritten [0, 1] \<noteq> Items_values example_store [0, 1]"
    by (simp add: Items_values_def)
  from wf g s v0 v1 n show ?thesis by (intro conjI)
qed

text \<open>
  C4, amended: on a well-formed list, GetRevisions of either list type returns as many
  pointers as there are Items; the i-th points to a newly allocated struct that is a
  copy of Items[i], slice headers included, at an address that is none of the Items'
  addresses; the pointers are pairwise distinct and the store's earlier cells and its
  condition arrays are unchanged. Any setter other than SetConditions called through
  a returned pointer succeeds and leaves every earlier struct cell and every
  condition array, hence every element of Items, as it was. SetConditions through a
  returned pointer leaves the earlier struct cells as they were: what it can change
  of an element of Items is the contents of the condition array the copy shares.
\<close>

theorem GetRevisions_owned_copies:
  "(ProviderRevisionList_wf st p \<longrightarrow>
     (\<exists>prs st'. ProviderRevisionList_GetRevisions p st = Some (prs, st')
        \<and> length prs = length (ProviderRevisionList.Items p)
        \<and> (\<forall>i<length (ProviderRevisionList.Items p). \<exists>a. prs ! i = Some a
              \<and> a \<notin> set (ProviderRevisionList.Items p) \<and> length (cells st) \<le> a \<and> a < length (cells st')
              \<and> cells st' ! a = cells st ! (ProviderRevisionList.Items p ! i))
        \<and> distinct prs
        \<and> (\<forall>a<length (cells st). cells st' ! a = cells st ! a)
        \<and> arrays st' = arrays st
        \<and> (\<forall>i<length (ProviderRevisionList.Items p). \<forall>op. \<not> calls_ConditionedStatus op \<longrightarrow>
              (\<exists>st''. PackageRevision_call_at op (prs ! i) st' = Some st''
                 \<and> (\<forall>a<length (cells st). cells st'' ! a = cells st ! a)
                 \<and> arrays st'' = arrays st
                 \<and> Items_values st'' (ProviderRevisionList.Items p) = Items_values st (ProviderRevisionList.Items p)))
        \<and> (\<forall>i<length (ProviderRevisionList.Items p). \<forall>op st''.
              PackageRevision_call_at op (prs ! i) st' = Some st'' \<longrightarrow>
              (\<forall>a<length (cells st). cells st'' ! a = cells st ! a))))
   \<and> (ConfigurationRevisionList_wf st c \<longrightarrow>
     (\<exists>prs st'. ConfigurationRevisionList_GetRevisions c st = Some (prs, st')
        \<and> length prs = length (ConfigurationRevisionList.Items c)
        \<and> (\<forall>i<length (ConfigurationRevisionList.Items c). \<exists>a. prs ! i = Some a
              \<and> a \<notin> set (ConfigurationRevisionList.Items c) \<and> length (cells st) \<le> a \<and> a < length (cells st')
              \<and> cells st' ! a = cells st ! (ConfigurationRevisionList.Items c ! i))
        \<and> distinct prs
        \<and> (\<forall>a<length (cells st). cells st' ! a = cells st ! a)
        \<and> arrays st' = arrays st
        \<and> (\<forall>i<length (ConfigurationRevisionList.Items c). \<forall>op. \<not> calls_ConditionedStatus op \<longrightarrow>
              (\<exists>st''. PackageRevision_call_at op (prs ! i) st' = Some st''
                 \<and> (\<forall>a<length (cells st). cells st'' ! a = cells st ! a)
                 \<and> arrays st'' = arrays st
                 \<and> Items_values st'' (ConfigurationRevisionList.Items c) = Items_values st (ConfigurationRevisionList.Items c)))
        \<and> (\<forall>i<length (ConfigurationRevisionList.Items c). \<forall>op st''.
              PackageRevision_call_at op (prs ! i) st' = Some st'' \<longrightarrow>
              (\<forall>a<length (cells st). cells st'' ! a = cells st ! a))))"
proof (intro conjI impI)
  assume wf: "ProviderRevisionList_wf st p"
  then have valid: "list_all (\<lambda>a. a < length (cells st)) (ProviderRevisionList.Items p)"
    by (simp add: ProviderRevisionList_wf_def list_all_iff)
  from GetRevisions_result_props [OF valid]
  show "(\<exists>prs st'. ProviderRevisionList_GetRevisions p st = Some (prs, st')
        \<and> length prs = length (ProviderRevisionList.Items p)
        \<and> (\<forall>i<length (ProviderRevisionList.Items p). \<exists>a. prs ! i = Some a
              \<and> a \<notin> set (ProviderRevisionList.Items p) \<and> length (cells st) \<le> a \<and> a < length (cells st')
              \<and> cells st' ! a = cells st ! (ProviderRevisionList.Items p ! i))
        \<and> distinct prs
        \<and> (\<forall>a<length (cells st). cells st' ! a = cells st ! a)
        \<and> arrays st' = arrays st
        \<and> (\<forall>i<length (ProviderRevisionList.Items p). \<forall>op. \<not> calls_ConditionedStatus op \<longrightarrow>
              (\<exists>st''. PackageRevision_call_at op (prs ! i) st' = Some st''
                 \<and> (\<forall>a<length (cells st). cells st'' ! a = cells st ! a)
                 \<and> arrays st'' = arrays st
                 \<and> Items_values st'' (ProviderRevisionList.Items p) = Items_values st (ProviderRevisionList.Items p)))
        \<and> (\<forall>i<length (ProviderRevisionList.Items p). \<forall>op st''.
              PackageRevision_call_at op (prs ! i) st' = Some st'' \<longrightarrow>
              (\<forall>a<length (cells st). cells st'' ! a = cells st ! a)))"
    unfolding ProviderRevisionList_GetRevisions_eq [OF wf]
    by (intro exI conjI) (rule refl, (elim conjE, assumption)+)
next
  assume wf: "ConfigurationRevisionList_wf st c"
  then have valid: "list_all (\<lambda>a. a < length (cells st)) (ConfigurationRevisionList.Items c)"
    by (simp add: ConfigurationRevisionList_wf_def list_all_iff)
  from GetRevisions_result_props [OF valid]
  show "(\<exists>prs st'. ConfigurationRevisionList_GetRevisions c st = Some (prs, st')
        \<and> length prs = length (ConfigurationRevisionList.Items c)
        \<and> (\<forall>i<length (ConfigurationRevisionList.Items c). \<exists>a. prs ! i = Some a
              \<and> a \<notin> set (ConfigurationRevisionList.Items c) \<and> length (cells st) \<le> a \<and> a < length (cells st')
              \<and> cells st' ! a = cells st ! (ConfigurationRevisionList.Items c ! i))
        \<and> distinct prs
        \<and> (\<forall>a<length (cells st). cells st' ! a = cells st ! a)
        \<and> arrays st' = arrays st
        \<and> (\<forall>i<length (ConfigurationRevisionList.Items c). \<forall>op. \<not> calls_ConditionedStatus op \<longrightarrow>
              (\<exists>st''. PackageRevision_call_at op (prs ! i) st' = Some st''
                 \<and> (\<forall>a<length (cells st). cells st'' ! a = cells st ! a)
                 \<and> arrays st'' = arrays st
                 \<and> Items_values st'' (ConfigurationRevisionList.Items c) = Items_values st (ConfigurationRevisionList.Items c)))
        \<and> (\<forall>i<length (ConfigurationRevisionList.Items c). \<forall>op st''.
              PackageRevision_call_at op (prs ! i) st' = Some st'' \<longrightarrow>
              (\<forall>a<length (cells st). cells st'' ! a = cells st ! a)))"
    unfolding ConfigurationRevisionList_GetRevisions_eq [OF wf]
    by (intro exI conjI) (rule refl, (elim conjE, assumption)+)
qed


theorem GetRevisions_owned_copies_witness:
  "ProviderRevisionList_wf example_store \<lparr>ProviderRevisionList.Items = [0, 1]\<rparr>
   \<and> ConfigurationRevisionList_wf example_store \<lparr>ConfigurationRevisionList.Items = [2]\<rparr>
   \<and> \<not> calls_ConditionedStatus (Rev_SetRevision 7)
   \<and> (\<exists>st''. PackageRevision_call_at (Rev_SetRevision 7) (Some 3) example_store_copied = Some st''
         \<and> cells st'' ! 0 = cells example_store ! 0
         \<and> Items_values st'' [0, 1] = Items_values example_store [0, 1])
   \<and> PackageRevision_call_at (Rev_SetConditions [Healthy_True_t1]) (Some 3) example_store_copied
       = Some example_store_rewritten
   \<and> cells example_store_rewritten ! 0 = cells example_store ! 0
   \<and> (\<exists>prs st'. ConfigurationRevisionList_GetRevisions
           \<lparr>ConfigurationRevisionList.Items = [2]\<rparr> example_store = Some (prs, st')
         \<and> length prs = 1 \<and> arrays st' = arrays example_store)"
proof -
  let ?P = "\<lparr>ProviderRevisionList.Items = [0, 1]\<rparr>"
  let ?C = "\<lparr>ConfigurationRevisionList.Items = [2]\<rparr>"
  note wp = example_store_wf(1) and wc = example_store_wf(2)
  have len: "length (cells example_store) = 3"
    by (simp add: example_store_def)
  note T = GetRevisions_owned_copies [of example_store ?P ?C]
  from T [THEN conjunct1, rule_format, OF wp] obtain prs st' where
    g: "ProviderRevisionList_GetRevisions ?P example_store = Some (prs, st')"
    and m: "\<forall>i<length (ProviderRevisionList.Items ?P). \<forall>op. \<not> calls_ConditionedStatus op \<longrightarrow>
              (\<exists>st''. PackageRevision_call_at op (prs ! i) st' = Some st''
                 \<and> (\<forall>a<length (cells example_store). cells st'' ! a = cells example_store ! a)
                 \<and> arrays st'' = arrays example_store
                 \<and> Items_values st'' (ProviderRevisionList.Items ?P)
                     = Items_values example_store (ProviderRevisionList.Items ?P))"
    and k: "\<forall>i<length (ProviderRevisionList.Items ?P). \<forall>op st''.
              PackageRevision_call_at op (prs ! i) st' = Some st'' \<longrightarrow>
              (\<forall>a<length (cells example_store). cells st'' ! a = cells example_store ! a)"
    by (elim exE conjE) (rule that; assumption)
  from g [unfolded example_store_GetRevisions]
  have prs: "prs = [Some 3, Some 4]" and st': "st' = example_store_copied"
    by simp_all
  have n: "\<not> calls_ConditionedStatus (Rev_SetRevision 7)"
    by simp
  from m [rule_format, of 0 "Rev_SetRevision 7"] n obtain st'' where
    c: "PackageRevision_call_at (Rev_SetRevision 7) (prs ! 0) st' = Some st''"
    and o: "\<forall>a<length (cells example_store). cells st'' ! a = cells example_store ! a"
    and v: "Items_values st'' (ProviderRevisionList.Items ?P)
             = Items_values example_store (ProviderRevisionList.Items ?P)"
    by auto
  from o len have o0: "cells st'' ! 0 = cells example_store ! 0"
    by simp
  from c o0 v have A: "\<exists>st''. PackageRevision_call_at (Rev_SetRevision 7) (Some 3) example_store_copied = Some st''
         \<and> cells st'' ! 0 = cells example_store ! 0
         \<and> Items_values st'' [0, 1] = Items_values example_store [0, 1]"
    by (simp add: prs st')
  have s: "PackageRevision_call_at (Rev_SetConditions [Healthy_True_t1]) (prs ! 0) st'
       = Some example_store_rewritten"
    by (simp add: prs st' example_store_SetConditions)
  from k [rule_format, of 0 "Rev_SetConditions [Healthy_True_t1]" example_store_rewritten 0] s len
  have B: "cells example_store_rewritten ! 0 = cells example_store ! 0"
    by simp
  from T [THEN conjunct2, rule_format, OF wc] obtain cprs cst' where
    cg: "ConfigurationRevisionList_GetRevisions ?C example_store = Some (cprs, cst')"
    and cl: "length cprs = length (ConfigurationRevisionList.Items ?C)"
    and ca: "arrays cst' = arrays example_store"
    by (elim exE conjE) (rule that; assumption)
  from cg cl ca have C: "\<exists>prs st'. ConfigurationRevisionList_GetRevisions ?C example_store = Some (prs, st')
         \<and> length prs = 1 \<and> arrays st' = arrays example_store"
    by simp
  from wp wc n A example_store_SetConditions B C show ?thesis
    by (intro conjI)
qed

subsection \<open>Package accessors\<close>




subsection \<open>The frame of the setters\<close>

text \<open>The field names cover the structs: two structs that agree on every named field are equal.\<close>

lemma Provider_fields_complete:
  "(\<forall>f. Provider_field_unchanged f p q) = (p = q)"
proof
  assume a: "\<forall>f. Provider_field_unchanged f p q"
  have sp: "Provider.Spec p = Provider.Spec q"
    using a [rule_format, of PF_Package]
      a [rule_format, of PF_RevisionActivationPolicy]
      a [rule_format, of PF_RevisionHistoryLimit]
      a [rule_format, of PF_PackagePullSecrets]
      a [rule_format, of PF_PackagePullPolicy]
      a [rule_format, of PF_IgnoreCrossplaneConstraints]
      a [rule_format, of PF_SkipDependencyResolution]
      a [rule_format, of PF_CommonLabels]
      a [rule_format, of PF_ControllerConfigReference]
    by (intro ProviderSpec.equality) simp_all
  have st: "Provider.Status p = Provider.Status q"
    using a [rule_format, of PF_ConditionedStatus]
      a [rule_format, of PF_CurrentRevision]
      a [rule_format, of PF_CurrentIdentifier]
    by (intro PackageStatus.equality) simp_all
  show "p = q"
    using sp st a [rule_format, of PF_ObjectMeta] by (intro Provider.equality) simp_all
next
  assume "p = q"
  then show "\<forall>f. Provider_field_unchanged f p q"
    by (intro allI) (case_tac f; simp)
qed

lemma Configuration_fields_complete:
  "(\<forall>f. Configuration_field_unchanged f p q) = (p = q)"
proof
  assume a: "\<forall>f. Configuration_field_unchanged f p q"
  have sp: "Configuration.Spec p = Configuration.Spec q"
    using a [rule_format, of PF_Package]
      a [rule_format, of PF_RevisionActivationPolicy]
      a [rule_format, of PF_RevisionHistoryLimit]
      a [rule_format, of PF_PackagePullSecrets]
      a [rule_format, of PF_PackagePullPolicy]
      a [rule_format, of PF_IgnoreCrossplaneConstraints]
      a [rule_format, of PF_SkipDependencyResolution]
      a [rule_format, of PF_CommonLabels]
    by (intro ConfigurationSpec.equality) simp_all
  have st: "Configuration.Status p = Configuration.Status q"
    using a [rule_format, of PF_ConditionedStatus]
      a [rule_format, of PF_CurrentRevision]
      a [rule_format, of PF_CurrentIdentifier]
    by (intro PackageStatus.equality) simp_all
  show "p = q"
    using sp st a [rule_format, of PF_ObjectMeta] by (intro Configuration.equality) simp_all
next
  assume "p = q"
  then show "\<forall>f. Configuration_field_unchanged f p q"
    by (intro allI) (case_tac f; simp)
qed

lemma ProviderRevision_fields_complete:
  "(\<forall>f. ProviderRevision_field_unchanged f p q) = (p = q)"
proof
  assume a: "\<forall>f. ProviderRevision_field_unchanged f p q"
  have sp: "ProviderRevision.Spec p = ProviderRevision.Spec q"
    using a [rule_format, of RF_ControllerConfigReference]
      a [rule_format, of RF_DesiredState]
      a [rule_format, of RF_Package]
      a [rule_format, of RF_PackagePullSecrets]
      a [rule_format, of RF_PackagePullPolicy]
      a [rule_format, of RF_Revision]
      a [rule_format, of RF_IgnoreCrossplaneConstraints]
      a [rule_format, of RF_SkipDependencyResolution]
      a [rule_format, of RF_WebhookTLSSecretName]
      a [rule_format, of RF_ESSTLSSecretName]
      a [rule_format, of RF_TLSServerSecretName]
      a [rule_format, of RF_TLSClientSecretName]
      a [rule_format, of RF_CommonLabels]
    by (intro PackageRevisionSpec.equality) simp_all
  have st: "ProviderRevision.Status p = ProviderRevision.Status q"
    using a [rule_format, of RF_ConditionedStatus]
      a [rule_format, of RF_ControllerRef]
      a [rule_format, of RF_ObjectRefs]
      a [rule_format, of RF_FoundDependencies]
      a [rule_format, of RF_InstalledDependencies]
      a [rule_format, of RF_InvalidDependencies]
      a [rule_format, of RF_PermissionRequests]
    by (intro PackageRevisionStatus.equality) simp_all
  show "p = q"
    using sp st a [rule_format, of RF_ObjectMeta] by (intro ProviderRevision.equality) simp_all
next
  assume "p = q"
  then show "\<forall>f. ProviderRevision_field_unchanged f p q"
    by (intro allI) (case_tac f; simp)
qed

lemma ConfigurationRevision_fields_complete:
  "(\<forall>f. ConfigurationRevision_field_unchanged f p q) = (p = q)"
proof
  assume a: "\<forall>f. ConfigurationRevision_field_unchanged f p q"
  have sp: "ConfigurationRevision.Spec p = ConfigurationRevision.Spec q"
    using a [rule_format, of RF_ControllerConfigReference]
      a [rule_format, of RF_DesiredState]
      a [rule_format, of RF_Package]
      a [rule_format, of RF_PackagePullSecrets]
      a [rule_format, of RF_PackagePullPolicy]
      a [rule_format, of RF_Revision]
      a [rule_format, of RF_IgnoreCrossplaneConstraints]
      a [rule_format, of RF_SkipDependencyResolution]
      a [rule_format, of RF_WebhookTLSSecretName]
      a [rule_format, of RF_ESSTLSSecretName]
      a [rule_format, of RF_TLSServerSecretName]
      a [rule_format, of RF_TLSClientSecretName]
      a [rule_format, of RF_CommonLabels]
    by (intro PackageRevisionSpec.equality) simp_all
  have st: "ConfigurationRevision.Status p = ConfigurationRevision.Status q"
    using a [rule_format, of RF_ConditionedStatus]
      a [rule_format, of RF_ControllerRef]
      a [rule_format, of RF_ObjectRefs]
      a [rule_format, of RF_FoundDependencies]
      a [rule_format, of RF_InstalledDependencies]
      a [rule_format, of RF_InvalidDependencies]
      a [rule_format, of RF_PermissionRequests]
    by (intro PackageRevisionStatus.equality) simp_all
  show "p = q"
    using sp st a [rule_format, of RF_ObjectMeta] by (intro ConfigurationRevision.equality) simp_all
next
  assume "p = q"
  then show "\<forall>f. ConfigurationRevision_field_unchanged f p q"
    by (intro allI) (case_tac f; simp)
qed

lemma Provider_frame:
  "f \<notin> set (Package_setter_fields op) \<Longrightarrow> Provider_field_unchanged f p (Provider_call setc op p)"
  by (cases op; cases f; simp add: accessor_defs)

lemma Configuration_frame:
  "f \<notin> set (Package_setter_fields op) \<Longrightarrow> Configuration_field_unchanged f p (Configuration_call setc op p)"
  by (cases op; cases f; simp add: accessor_defs)

lemma ProviderRevision_frame:
  "f \<notin> set (Revision_setter_fields op) \<Longrightarrow> ProviderRevision_field_unchanged f p (ProviderRevision_call setc op p)"
  by (cases op; cases f; simp add: accessor_defs)

lemma ConfigurationRevision_frame:
  "f \<notin> set (Revision_setter_fields op) \<Longrightarrow> ConfigurationRevision_field_unchanged f p (ConfigurationRevision_call setc op p)"
  by (cases op; cases f; simp add: accessor_defs)

text \<open>
  C10: on each of the four types, a setter leaves every field other than the one it is
  named after as it was; SetDependencyStatus leaves every field other than the three
  dependency counters as it was.
\<close>

theorem setters_frame:
  "(f \<notin> set (Package_setter_fields op) \<longrightarrow>
      Provider_field_unchanged f p (Provider_call setc op p)
      \<and> Configuration_field_unchanged f c (Configuration_call setc op c))
   \<and> (g \<notin> set (Revision_setter_fields rop) \<longrightarrow>
      ProviderRevision_field_unchanged g pr (ProviderRevision_call setc rop pr)
      \<and> ConfigurationRevision_field_unchanged g cr (ConfigurationRevision_call setc rop cr))
   \<and> Revision_setter_fields (Rev_SetDependencyStatus found installed invalid) =
        [RF_FoundDependencies, RF_InstalledDependencies, RF_InvalidDependencies]"
  by (simp add: Provider_frame Configuration_frame ProviderRevision_frame ConfigurationRevision_frame)

theorem setters_frame_witness:
  "PF_CurrentRevision \<notin> set (Package_setter_fields (Pkg_SetSource ''img:v2''))
   \<and> Provider_field_unchanged PF_CurrentRevision Provider_zero
        (Provider_call (\<lambda>c s. s) (Pkg_SetSource ''img:v2'') Provider_zero)
   \<and> Configuration_field_unchanged PF_CurrentRevision Configuration_zero
        (Configuration_call (\<lambda>c s. s) (Pkg_SetSource ''img:v2'') Configuration_zero)
   \<and> RF_DesiredState \<notin> set (Revision_setter_fields (Rev_SetDependencyStatus 3 2 1))
   \<and> ProviderRevision_field_unchanged RF_DesiredState ProviderRevision_zero
        (ProviderRevision_call (\<lambda>c s. s) (Rev_SetDependencyStatus 3 2 1) ProviderRevision_zero)
   \<and> ConfigurationRevision_field_unchanged RF_DesiredState ConfigurationRevision_zero
        (ConfigurationRevision_call (\<lambda>c s. s) (Rev_SetDependencyStatus 3 2 1) ConfigurationRevision_zero)"
  using setters_frame [of PF_CurrentRevision "Pkg_SetSource ''img:v2''" Provider_zero "\<lambda>c s. s"
      Configuration_zero RF_DesiredState "Rev_SetDependencyStatus 3 2 1" ProviderRevision_zero
      ConfigurationRevision_zero]
  by simp

subsection \<open>Activation policy\<close>

lemma Provider_call_keeps_policy:
  "\<not> sets_activation_policy op \<Longrightarrow>
   Provider_GetActivationPolicy (Provider_call setc op p) = Provider_GetActivationPolicy p"
  by (cases op; simp add: accessor_defs)

lemma Configuration_call_keeps_policy:
  "\<not> sets_activation_policy op \<Longrightarrow>
   Configuration_GetActivationPolicy (Configuration_call setc op p) = Configuration_GetActivationPolicy p"
  by (cases op; simp add: accessor_defs)

lemma Provider_run_keeps_policy:
  "\<forall>op\<in>set ops. \<not> sets_activation_policy op \<Longrightarrow>
   Provider_GetActivationPolicy (Provider_run setc ops p) = Provider_GetActivationPolicy p"
  unfolding Provider_run_def
  by (induction ops arbitrary: p) (simp_all add: Provider_call_keeps_policy)

lemma Configuration_run_keeps_policy:
  "\<forall>op\<in>set ops. \<not> sets_activation_policy op \<Longrightarrow>
   Configuration_GetActivationPolicy (Configuration_run setc ops p) = Configuration_GetActivationPolicy p"
  unfolding Configuration_run_def
  by (induction ops arbitrary: p) (simp_all add: Configuration_call_keeps_policy)

text \<open>
  C7 fails as stated: the policy is a string, and a value other than the two declared
  ones is stored and returned by the accessors of both package types.
\<close>

theorem ActivationPolicy_other_value:
  "Provider_GetActivationPolicy (Provider_SetActivationPolicy (Some ''Canary'') Provider_zero)
     = Some ''Canary''
   \<and> Configuration_GetActivationPolicy
        (Configuration_SetActivationPolicy (Some ''Canary'') Configuration_zero) = Some ''Canary''
   \<and> ''Canary'' \<noteq> AutomaticActivation \<and> ''Canary'' \<noteq> ManualActivation"
  by (simp add: accessor_defs AutomaticActivation_def ManualActivation_def)

text \<open>
  C7, amended: the two declared policies are the distinct strings Automatic and Manual,
  but the type is a string and both package types store any policy and return it
  unchanged, so a policy that was set is the effective one; and for a package whose
  policy is not set, also after any calls of setters other than SetActivationPolicy,
  the effective policy is the default, Automatic.
\<close>

theorem ActivationPolicy_accessors:
  "AutomaticActivation = ''Automatic'' \<and> ManualActivation = ''Manual''
   \<and> AutomaticActivation \<noteq> ManualActivation
   \<and> Provider_GetActivationPolicy (Provider_SetActivationPolicy a p) = a
   \<and> Configuration_GetActivationPolicy (Configuration_SetActivationPolicy a c) = a
   \<and> effective_ActivationPolicy
        (Provider_GetActivationPolicy (Provider_SetActivationPolicy (Some policy) p)) = policy
   \<and> effective_ActivationPolicy
        (Configuration_GetActivationPolicy (Configuration_SetActivationPolicy (Some policy) c)) = policy
   \<and> (Provider_GetActivationPolicy p = None \<and> (\<forall>op\<in>set ops. \<not> sets_activation_policy op) \<longrightarrow>
        effective_ActivationPolicy (Provider_GetActivationPolicy (Provider_run setc ops p))
          = AutomaticActivation)
   \<and> (Configuration_GetActivationPolicy c = None \<and> (\<forall>op\<in>set ops. \<not> sets_activation_policy op) \<longrightarrow>
        effective_ActivationPolicy (Configuration_GetActivationPolicy (Configuration_run setc ops c))
          = AutomaticActivation)"
proof -
  have v: "AutomaticActivation = ''Automatic''" "ManualActivation = ''Manual''"
    "AutomaticActivation \<noteq> ManualActivation"
    by (simp_all add: AutomaticActivation_def ManualActivation_def)
  have g: "Provider_GetActivationPolicy (Provider_SetActivationPolicy a p) = a"
    "Configuration_GetActivationPolicy (Configuration_SetActivationPolicy a c) = a"
    by (simp_all add: accessor_defs)
  have e: "effective_ActivationPolicy
        (Provider_GetActivationPolicy (Provider_SetActivationPolicy (Some policy) p)) = policy"
    "effective_ActivationPolicy
        (Configuration_GetActivationPolicy (Configuration_SetActivationPolicy (Some policy) c)) = policy"
    by (simp_all add: accessor_defs effective_ActivationPolicy_def)
  have dp: "Provider_GetActivationPolicy p = None \<and> (\<forall>op\<in>set ops. \<not> sets_activation_policy op) \<longrightarrow>
        effective_ActivationPolicy (Provider_GetActivationPolicy (Provider_run setc ops p))
          = AutomaticActivation"
    by (simp add: Provider_run_keeps_policy effective_ActivationPolicy_def)
  have dc: "Configuration_GetActivationPolicy c = None \<and> (\<forall>op\<in>set ops. \<not> sets_activation_policy op) \<longrightarrow>
        effective_ActivationPolicy (Configuration_GetActivationPolicy (Configuration_run setc ops c))
          = AutomaticActivation"
    by (simp add: Configuration_run_keeps_policy effective_ActivationPolicy_def)
  from v g e dp dc show ?thesis
    by (intro conjI)
qed

theorem ActivationPolicy_accessors_witness:
  "Provider_GetActivationPolicy Provider_zero = None
   \<and> Configuration_GetActivationPolicy Configuration_zero = None
   \<and> \<not> sets_activation_policy (Pkg_SetSource ''img:v1'')
   \<and> \<not> sets_activation_policy (Pkg_SetCurrentRevision ''r1'')
   \<and> effective_ActivationPolicy (Provider_GetActivationPolicy
        (Provider_run (\<lambda>c s. s) [Pkg_SetSource ''img:v1'', Pkg_SetCurrentRevision ''r1''] Provider_zero))
      = ''Automatic''
   \<and> effective_ActivationPolicy (Configuration_GetActivationPolicy
        (Configuration_run (\<lambda>c s. s) [Pkg_SetSource ''img:v1'', Pkg_SetCurrentRevision ''r1''] Configuration_zero))
      = ''Automatic''"
proof -
  have p0: "Provider_GetActivationPolicy Provider_zero = None"
    by (simp add: accessor_defs zero_defs)
  have c0: "Configuration_GetActivationPolicy Configuration_zero = None"
    by (simp add: accessor_defs zero_defs)
  have ops: "\<forall>op\<in>set [Pkg_SetSource ''img:v1'', Pkg_SetCurrentRevision ''r1'']. \<not> sets_activation_policy op"
    by simp
  note T = ActivationPolicy_accessors [of None Provider_zero Configuration_zero "''Manual''"
      "[Pkg_SetSource ''img:v1'', Pkg_SetCurrentRevision ''r1'']" "\<lambda>c s. s"]
  from T p0 ops have a: "effective_ActivationPolicy (Provider_GetActivationPolicy
        (Provider_run (\<lambda>c s. s) [Pkg_SetSource ''img:v1'', Pkg_SetCurrentRevision ''r1''] Provider_zero))
      = ''Automatic''"
    by (simp only: AutomaticActivation_def)
  from T c0 ops have b: "effective_ActivationPolicy (Configuration_GetActivationPolicy
        (Configuration_run (\<lambda>c s. s) [Pkg_SetSource ''img:v1'', Pkg_SetCurrentRevision ''r1''] Configuration_zero))
      = ''Automatic''"
    by (simp only: AutomaticActivation_def)
  from p0 c0 a b show ?thesis by simp
qed

subsection \<open>Dependency status\<close>

text \<open>
  C6: on both revision types GetDependencyStatus after SetDependencyStatus(f, i, v)
  returns (f, i, v), and the three values are held by the status fields
  FoundDependencies, InstalledDependencies and InvalidDependencies in that order.
\<close>

theorem DependencyStatus_set_get:
  "ProviderRevision_GetDependencyStatus (ProviderRevision_SetDependencyStatus f i v p) = (f, i, v)
   \<and> FoundDependencies (ProviderRevision.Status (ProviderRevision_SetDependencyStatus f i v p)) = f
   \<and> InstalledDependencies (ProviderRevision.Status (ProviderRevision_SetDependencyStatus f i v p)) = i
   \<and> InvalidDependencies (ProviderRevision.Status (ProviderRevision_SetDependencyStatus f i v p)) = v
   \<and> ConfigurationRevision_GetDependencyStatus (ConfigurationRevision_SetDependencyStatus f i v c) = (f, i, v)
   \<and> FoundDependencies (ConfigurationRevision.Status (ConfigurationRevision_SetDependencyStatus f i v c)) = f
   \<and> InstalledDependencies (ConfigurationRevision.Status (ConfigurationRevision_SetDependencyStatus f i v c)) = i
   \<and> InvalidDependencies (ConfigurationRevision.Status (ConfigurationRevision_SetDependencyStatus f i v c)) = v"
  by (simp add: accessor_defs)

lemma PackageRevision_call_DependencyStatus:
  "PackageRevision_GetDependencyStatus (PackageRevision_call setc op r) =
     (case op of
        Rev_SetDependencyStatus f i v \<Rightarrow> (f, i, v)
      | _ \<Rightarrow> PackageRevision_GetDependencyStatus r)"
  by (cases r; cases op; simp add: accessor_defs)

lemma PackageRevision_call_keeps_bounds:
  "dep_bounds (PackageRevision_GetDependencyStatus r) \<Longrightarrow> setter_keeps_bounds op \<Longrightarrow>
   dep_bounds (PackageRevision_GetDependencyStatus (PackageRevision_call setc op r))"
  by (cases op; simp add: PackageRevision_call_DependencyStatus)

lemma PackageRevision_run_keeps_bounds:
  "dep_bounds (PackageRevision_GetDependencyStatus r) \<Longrightarrow> \<forall>op\<in>set ops. setter_keeps_bounds op \<Longrightarrow>
   dep_bounds (PackageRevision_GetDependencyStatus (PackageRevision_run setc ops r))"
  unfolding PackageRevision_run_def
  by (induction ops arbitrary: r) (simp_all add: PackageRevision_call_keeps_bounds)

text \<open>
  C2 fails as stated: SetDependencyStatus checks nothing, so from the zero revision,
  whose counters meet the bounds, SetDependencyStatus(0, 1, 0) reaches a state with
  more installed than found dependencies.
\<close>

theorem DependencyStatus_bounds_broken:
  "dep_bounds (ProviderRevision_GetDependencyStatus ProviderRevision_zero)
   \<and> \<not> dep_bounds (ProviderRevision_GetDependencyStatus
          (ProviderRevision_SetDependencyStatus 0 1 0 ProviderRevision_zero))
   \<and> \<not> dep_bounds (ConfigurationRevision_GetDependencyStatus
          (ConfigurationRevision_SetDependencyStatus 0 1 0 ConfigurationRevision_zero))"
  by (simp add: accessor_defs zero_defs)

text \<open>
  C2, amended: the counters returned after SetDependencyStatus(f, i, v) meet the bounds
  exactly when f, i, v do; and from a revision whose counters meet the bounds, any
  sequence of setter calls in which every SetDependencyStatus is given a triple
  within the bounds leads to a revision whose counters meet them.
\<close>

theorem DependencyStatus_bounds_preserved:
  "dep_bounds (PackageRevision_GetDependencyStatus
      (PackageRevision_call setc (Rev_SetDependencyStatus f i v) r)) = dep_bounds (f, i, v)
   \<and> (dep_bounds (PackageRevision_GetDependencyStatus r) \<and> (\<forall>op\<in>set ops. setter_keeps_bounds op) \<longrightarrow>
        dep_bounds (PackageRevision_GetDependencyStatus (PackageRevision_run setc ops r)))"
  using PackageRevision_run_keeps_bounds [of r ops setc]
  by (simp add: PackageRevision_call_DependencyStatus)

theorem DependencyStatus_bounds_preserved_witness:
  "dep_bounds (PackageRevision_GetDependencyStatus (ProviderRevisionObj ProviderRevision_zero))
   \<and> setter_keeps_bounds (Rev_SetDependencyStatus 3 2 1)
   \<and> setter_keeps_bounds (Rev_SetDesiredState ''Active'')
   \<and> dep_bounds (PackageRevision_GetDependencyStatus
        (PackageRevision_run (\<lambda>c s. s) [Rev_SetDependencyStatus 3 2 1, Rev_SetDesiredState ''Active'']
           (ProviderRevisionObj ProviderRevision_zero)))"
proof -
  have r0: "dep_bounds (PackageRevision_GetDependencyStatus (ProviderRevisionObj ProviderRevision_zero))"
    by (simp add: accessor_defs zero_defs)
  have ops: "\<forall>op\<in>set [Rev_SetDependencyStatus 3 2 1, Rev_SetDesiredState ''Active'']. setter_keeps_bounds op"
    by simp
  from DependencyStatus_bounds_preserved [of "\<lambda>c s. s" 3 2 1 "ProviderRevisionObj ProviderRevision_zero"
      "[Rev_SetDependencyStatus 3 2 1, Rev_SetDesiredState ''Active'']"] r0 ops
  have "dep_bounds (PackageRevision_GetDependencyStatus
        (PackageRevision_run (\<lambda>c s. s) [Rev_SetDependencyStatus 3 2 1, Rev_SetDesiredState ''Active'']
           (ProviderRevisionObj ProviderRevision_zero)))"
    by blast
  with r0 show ?thesis by simp
qed

subsection \<open>Retention\<close>

lemma retention_deletions_take:
  "\<exists>n. retention_deletions limit revs =
     take n (sort_key revision_number (inactive_revisions revs))"
proof (cases limit)
  case None
  then have "retention_deletions limit revs =
      take 0 (sort_key revision_number (inactive_revisions revs))"
    by (simp add: retention_deletions_def)
  then show ?thesis ..
next
  case (Some l)
  show ?thesis
  proof (cases "int (length (sort_key revision_number (inactive_revisions revs))) > sint l")
    case True
    with Some have "retention_deletions limit revs =
        take (nat (int (length (sort_key revision_number (inactive_revisions revs))) - sint l))
          (sort_key revision_number (inactive_revisions revs))"
      by (simp add: retention_deletions_def Let_def)
    then show ?thesis ..
  next
    case False
    with Some have "retention_deletions limit revs =
        take 0 (sort_key revision_number (inactive_revisions revs))"
      by (simp add: retention_deletions_def Let_def)
    then show ?thesis ..
  qed
qed

lemma retention_deletions_inactive:
  assumes "d \<in> set (retention_deletions limit revs)"
  shows "d \<in> set revs \<and> PackageRevision_GetDesiredState d = PackageRevisionInactive"
proof -
  obtain n where n: "retention_deletions limit revs =
      take n (sort_key revision_number (inactive_revisions revs))"
    using retention_deletions_take by blast
  from assms have "d \<in> set (sort_key revision_number (inactive_revisions revs))"
    unfolding n by (rule in_set_takeD)
  then show ?thesis
    by (simp add: inactive_revisions_def)
qed

lemma retention_deletions_sorted:
  "sorted (map revision_number (retention_deletions limit revs))"
proof -
  obtain n where n: "retention_deletions limit revs =
      take n (sort_key revision_number (inactive_revisions revs))"
    using retention_deletions_take by blast
  have "sorted (take n (map revision_number (sort_key revision_number (inactive_revisions revs))))"
    by (rule sorted_wrt_take) simp
  then show ?thesis
    by (simp add: n take_map)
qed

lemma retention_deletions_oldest:
  assumes d: "d \<in> set (retention_deletions limit revs)"
    and r: "r \<in> set revs" "PackageRevision_GetDesiredState r = PackageRevisionInactive"
    and kept: "r \<notin> set (retention_deletions limit revs)"
  shows "revision_number d \<le> revision_number r"
proof -
  let ?xs = "sort_key revision_number (inactive_revisions revs)"
  obtain n where n: "retention_deletions limit revs = take n ?xs"
    using retention_deletions_take by blast
  have "r \<in> set ?xs"
    using r by (simp add: inactive_revisions_def)
  then have "r \<in> set (take n ?xs) \<union> set (drop n ?xs)"
    by (simp only: set_append [symmetric] append_take_drop_id)
  with kept have rd: "r \<in> set (drop n ?xs)"
    by (simp add: n)
  have "sorted (map revision_number (take n ?xs @ drop n ?xs))"
    by simp
  then have "\<forall>x\<in>set (take n ?xs). \<forall>y\<in>set (drop n ?xs). revision_number x \<le> revision_number y"
    unfolding map_append sorted_append by simp
  with d rd show ?thesis
    by (simp add: n)
qed

lemma retention_deletions_count:
  assumes "0 \<le> sint l"
  shows "int (length (retention_deletions (Some l) revs)) =
     max 0 (int (length (inactive_revisions revs)) - sint l)"
  using assms by (simp add: retention_deletions_def Let_def)

lemma Active_not_Inactive: "PackageRevisionInactive \<noteq> PackageRevisionActive"
  by (simp add: PackageRevisionInactive_def PackageRevisionActive_def)

text \<open>
  C3: whatever the revision history limit, every revision selected for deletion is one
  of the package's revisions with desired state Inactive, so never an Active one; the
  selection is in ascending order of revision number and every Inactive revision that
  is kept is at least as recent as every deleted one; and for a limit of at least 0
  the number deleted is the excess of the Inactive revisions over the limit.
\<close>

theorem retention_never_deletes_active:
  "(\<forall>d\<in>set (retention_deletions limit revs).
       d \<in> set revs
       \<and> PackageRevision_GetDesiredState d = PackageRevisionInactive
       \<and> PackageRevision_GetDesiredState d \<noteq> PackageRevisionActive)
   \<and> sorted (map revision_number (retention_deletions limit revs))
   \<and> (\<forall>d\<in>set (retention_deletions limit revs). \<forall>r\<in>set revs.
         PackageRevision_GetDesiredState r = PackageRevisionInactive
         \<and> r \<notin> set (retention_deletions limit revs) \<longrightarrow> revision_number d \<le> revision_number r)
   \<and> (0 \<le> sint l \<longrightarrow>
         int (length (retention_deletions (Some l) revs)) =
           max 0 (int (length (inactive_revisions revs)) - sint l))"
proof (intro conjI ballI impI)
  fix d assume d: "d \<in> set (retention_deletions limit revs)"
  from retention_deletions_inactive [OF d]
  show "d \<in> set revs" and i: "PackageRevision_GetDesiredState d = PackageRevisionInactive"
    by simp_all
  show "PackageRevision_GetDesiredState d \<noteq> PackageRevisionActive"
    using i Active_not_Inactive by simp
next
  show "sorted (map revision_number (retention_deletions limit revs))"
    by (rule retention_deletions_sorted)
next
  fix d r
  assume "d \<in> set (retention_deletions limit revs)" "r \<in> set revs"
    "PackageRevision_GetDesiredState r = PackageRevisionInactive
       \<and> r \<notin> set (retention_deletions limit revs)"
  then show "revision_number d \<le> revision_number r"
    using retention_deletions_oldest by blast
next
  assume "0 \<le> sint l"
  then show "int (length (retention_deletions (Some l) revs)) =
           max 0 (int (length (inactive_revisions revs)) - sint l)"
    by (rule retention_deletions_count)
qed

lemma example_retention:
  "retention_deletions (Provider_GetRevisionHistoryLimit
      (Provider_SetRevisionHistoryLimit (Some 1) Provider_zero)) example_revisions
   = [ProviderRevisionObj (ProviderRevision_SetDesiredState PackageRevisionInactive
        (ProviderRevision_SetRevision 1 ProviderRevision_zero))]"
  by (simp add: retention_deletions_def inactive_revisions_def example_revisions_def
      revision_number_def accessor_defs zero_defs PackageRevisionInactive_def
      PackageRevisionActive_def)

theorem retention_never_deletes_active_witness:
  "ProviderRevisionObj (ProviderRevision_SetDesiredState PackageRevisionInactive
        (ProviderRevision_SetRevision 1 ProviderRevision_zero))
     \<in> set (retention_deletions (Provider_GetRevisionHistoryLimit
          (Provider_SetRevisionHistoryLimit (Some 1) Provider_zero)) example_revisions)
   \<and> PackageRevision_GetDesiredState
        (ProviderRevisionObj (ProviderRevision_SetDesiredState PackageRevisionInactive
           (ProviderRevision_SetRevision 1 ProviderRevision_zero))) \<noteq> PackageRevisionActive
   \<and> ProviderRevisionObj (ProviderRevision_SetDesiredState PackageRevisionInactive
        (ProviderRevision_SetRevision 2 ProviderRevision_zero))
     \<notin> set (retention_deletions (Provider_GetRevisionHistoryLimit
          (Provider_SetRevisionHistoryLimit (Some 1) Provider_zero)) example_revisions)
   \<and> revision_number (ProviderRevisionObj (ProviderRevision_SetDesiredState PackageRevisionInactive
        (ProviderRevision_SetRevision 1 ProviderRevision_zero)))
      \<le> revision_number (ProviderRevisionObj (ProviderRevision_SetDesiredState PackageRevisionInactive
        (ProviderRevision_SetRevision 2 ProviderRevision_zero)))
   \<and> (0::int) \<le> sint (1::int64)
   \<and> int (length (retention_deletions (Some 1) example_revisions)) = 1"
proof -
  let ?d = "ProviderRevisionObj (ProviderRevision_SetDesiredState PackageRevisionInactive
        (ProviderRevision_SetRevision 1 ProviderRevision_zero))"
  let ?r = "ProviderRevisionObj (ProviderRevision_SetDesiredState PackageRevisionInactive
        (ProviderRevision_SetRevision 2 ProviderRevision_zero))"
  let ?limit = "Provider_GetRevisionHistoryLimit
      (Provider_SetRevisionHistoryLimit (Some 1) Provider_zero)"
  have mem: "?d \<in> set (retention_deletions ?limit example_revisions)"
    by (simp add: example_retention)
  have kept: "?r \<notin> set (retention_deletions ?limit example_revisions)"
    unfolding example_retention by (simp add: accessor_defs zero_defs)
  have r_in: "?r \<in> set example_revisions"
    by (simp add: example_revisions_def)
  have r_inactive: "PackageRevision_GetDesiredState ?r = PackageRevisionInactive"
    by (simp add: accessor_defs)
  have l: "(0::int) \<le> sint (1::int64)"
    by simp
  have n: "int (length (inactive_revisions example_revisions)) = 2"
    by (simp add: inactive_revisions_def example_revisions_def accessor_defs zero_defs
        PackageRevisionInactive_def PackageRevisionActive_def)
  note T = retention_never_deletes_active [of ?limit example_revisions 1]
  from T mem have a: "PackageRevision_GetDesiredState ?d \<noteq> PackageRevisionActive"
    by blast
  from T mem r_in r_inactive kept have b: "revision_number ?d \<le> revision_number ?r"
    by blast
  from T l n have c: "int (length (retention_deletions (Some 1) example_revisions)) = 1"
    by simp
  from mem a kept b l c show ?thesis
    by (intro conjI)
qed

subsection \<open>Desired state\<close>

lemma validates_SString: "validates SString v = (\<exists>s. v = JStr s)"
  by (cases v) simp_all

lemma validates_SObject_required:
  "validates (SObject props req) (JObj kvs) \<Longrightarrow> k \<in> set req \<Longrightarrow> k \<in> fst ` set kvs"
  by (simp add: list_all_iff)

lemma validates_SObject_property:
  "validates (SObject props req) (JObj kvs) \<Longrightarrow> (k, v) \<in> set kvs \<Longrightarrow>
   map_of props k = Some s \<Longrightarrow> validates s v"
  by (fastforce simp: list_all_iff)

lemma spec_schema_desiredState:
  assumes "validates PackageRevisionSpec_schema (JObj kvs)"
  shows "\<exists>s. (''desiredState'', JStr s) \<in> set kvs"
proof -
  from assms have "''desiredState'' \<in> fst ` set kvs"
    unfolding PackageRevisionSpec_schema_def
    by (rule validates_SObject_required) simp
  then obtain v where v: "(''desiredState'', v) \<in> set kvs"
    by auto
  from assms v have "validates SString v"
    unfolding PackageRevisionSpec_schema_def
    by (rule validates_SObject_property) simp
  with v show ?thesis
    by (auto simp: validates_SString)
qed

lemma validates_SObject_Cons:
  assumes "map_of props k = Some s" and "validates s v'"
  shows "validates (SObject props req) (JObj ((k, v) # rest))
     = (validates s v \<and> validates (SObject props req) (JObj ((k, v') # rest)))"
  using assms by auto

lemma spec_schema_desiredState_string:
  assumes "validates PackageRevisionSpec_schema (JObj kvs)"
    and "(''desiredState'', w) \<in> set kvs"
  shows "\<exists>s. w = JStr s"
proof -
  from assms have "validates SString w"
    unfolding PackageRevisionSpec_schema_def
    by (rule validates_SObject_property) simp
  then show ?thesis
    by (simp add: validates_SString)
qed

text \<open>
  C5 fails as stated: the schema gives desiredState the type string and nothing more,
  and SetDesiredState assigns its argument, so a value that is neither Active nor
  Inactive is accepted by both and returned by GetDesiredState.
\<close>

theorem DesiredState_other_value:
  "ProviderRevision_GetDesiredState (ProviderRevision_SetDesiredState ''Paused'' ProviderRevision_zero)
     = ''Paused''
   \<and> ConfigurationRevision_GetDesiredState
        (ConfigurationRevision_SetDesiredState ''Paused'' ConfigurationRevision_zero) = ''Paused''
   \<and> ''Paused'' \<noteq> PackageRevisionActive \<and> ''Paused'' \<noteq> PackageRevisionInactive
   \<and> validates PackageRevisionSpec_schema
        (JObj [(''desiredState'', JStr ''Paused''), (''image'', JStr ''img:v1''), (''revision'', JNum 1)])"
  by (simp add: accessor_defs PackageRevisionActive_def PackageRevisionInactive_def
      PackageRevisionSpec_schema_def)

text \<open>
  C5, amended: desiredState is a string whose two documented values are Active and
  Inactive, and neither the setter nor the schema rejects another string.
  SetDesiredState of either revision type stores any string, which GetDesiredState
  returns. The schema asks of desiredState only that it is present and a string: every
  spec it accepts has a desiredState that is a string; a spec whose other members are
  valid is accepted whatever string its desiredState is and rejected when its
  desiredState is not a string; and a spec of desiredState, image and revision only is
  accepted exactly when desiredState is a string and revision is an int64.
\<close>

theorem DesiredState_is_any_string:
  "ProviderRevision_GetDesiredState (ProviderRevision_SetDesiredState d p) = d
   \<and> ConfigurationRevision_GetDesiredState (ConfigurationRevision_SetDesiredState d c) = d
   \<and> (validates PackageRevisionSpec_schema (JObj kvs) \<longrightarrow>
        (\<exists>s. (''desiredState'', JStr s) \<in> set kvs)
        \<and> (\<forall>w. (''desiredState'', w) \<in> set kvs \<longrightarrow> (\<exists>s. w = JStr s)))
   \<and> validates PackageRevisionSpec_schema (JObj ((''desiredState'', v) # rest))
      = ((\<exists>s. v = JStr s)
         \<and> validates PackageRevisionSpec_schema (JObj ((''desiredState'', JStr PackageRevisionActive) # rest)))
   \<and> validates PackageRevisionSpec_schema
        (JObj [(''desiredState'', v), (''image'', JStr i), (''revision'', JNum n)])
      = ((\<exists>s. v = JStr s) \<and> - (2 ^ 63) \<le> n \<and> n < 2 ^ 63)
   \<and> PackageRevisionActive = ''Active'' \<and> PackageRevisionInactive = ''Inactive''"
proof -
  have a: "ProviderRevision_GetDesiredState (ProviderRevision_SetDesiredState d p) = d"
    by (simp add: accessor_defs)
  have b: "ConfigurationRevision_GetDesiredState (ConfigurationRevision_SetDesiredState d c) = d"
    by (simp add: accessor_defs)
  have g: "validates PackageRevisionSpec_schema (JObj kvs) \<longrightarrow>
        (\<exists>s. (''desiredState'', JStr s) \<in> set kvs)
        \<and> (\<forall>w. (''desiredState'', w) \<in> set kvs \<longrightarrow> (\<exists>s. w = JStr s))"
    using spec_schema_desiredState [of kvs] spec_schema_desiredState_string [of kvs]
    by blast
  have "validates PackageRevisionSpec_schema (JObj ((''desiredState'', v) # rest))
      = (validates SString v
         \<and> validates PackageRevisionSpec_schema (JObj ((''desiredState'', JStr PackageRevisionActive) # rest)))"
    unfolding PackageRevisionSpec_schema_def
    by (rule validates_SObject_Cons) simp_all
  then have r: "validates PackageRevisionSpec_schema (JObj ((''desiredState'', v) # rest))
      = ((\<exists>s. v = JStr s)
         \<and> validates PackageRevisionSpec_schema (JObj ((''desiredState'', JStr PackageRevisionActive) # rest)))"
    by (simp only: validates_SString)
  have s: "validates PackageRevisionSpec_schema
        (JObj [(''desiredState'', v), (''image'', JStr i), (''revision'', JNum n)])
      = ((\<exists>s. v = JStr s) \<and> - (2 ^ 63) \<le> n \<and> n < 2 ^ 63)"
    by (simp add: PackageRevisionSpec_schema_def validates_SString)
  from a b g r s show ?thesis
    by (simp only: PackageRevisionActive_def PackageRevisionInactive_def)
qed

theorem DesiredState_is_any_string_witness:
  "validates PackageRevisionSpec_schema
     (JObj [(''desiredState'', JStr ''Inactive''), (''image'', JStr ''img:v1''), (''revision'', JNum 1)])
   \<and> (\<exists>s. (''desiredState'', JStr s) \<in>
         set [(''desiredState'', JStr ''Inactive''), (''image'', JStr ''img:v1''), (''revision'', JNum 1)])
   \<and> (''desiredState'', JStr ''Inactive'') \<in>
         set [(''desiredState'', JStr ''Inactive''), (''image'', JStr ''img:v1''), (''revision'', JNum 1)]
   \<and> (\<exists>s. JStr ''Inactive'' = JStr s)"
proof -
  let ?kvs = "[(''desiredState'', JStr ''Inactive''), (''image'', JStr ''img:v1''), (''revision'', JNum 1)]"
  have v: "validates PackageRevisionSpec_schema (JObj ?kvs)"
    by (simp add: PackageRevisionSpec_schema_def)
  have m: "(''desiredState'', JStr ''Inactive'') \<in> set ?kvs"
    by simp
  note T = DesiredState_is_any_string [of "''Inactive''" ProviderRevision_zero
      ConfigurationRevision_zero ?kvs "JStr ''Inactive''" "[]" "''img:v1''" 1]
  from T v have e: "\<exists>s. (''desiredState'', JStr s) \<in> set ?kvs"
    by blast
  from T v m have f: "\<exists>s. JStr ''Inactive'' = JStr s"
    by blast
  from v e m f show ?thesis by (intro conjI)
qed

subsection \<open>Printer columns\<close>

lemma column_cells_paths:
  "column_cells ''HEALTHY'' doc = Some (eval_path
      [Child ''status'', Child ''conditions'', FilterEq ''type'' ''Healthy'', Child ''status''] [doc])"
  "column_cells ''REVISION'' doc = Some (eval_path [Child ''spec'', Child ''revision''] [doc])"
  "column_cells ''IMAGE'' doc = Some (eval_path [Child ''spec'', Child ''image''] [doc])"
  "column_cells ''STATE'' doc = Some (eval_path [Child ''spec'', Child ''desiredState''] [doc])"
  "column_cells ''DEP-FOUND'' doc = Some (eval_path [Child ''status'', Child ''foundDependencies''] [doc])"
  "column_cells ''DEP-INSTALLED'' doc = Some (eval_path [Child ''status'', Child ''installedDependencies''] [doc])"
  by (simp_all add: column_cells_def additionalPrinterColumns_def)

lemma eval_step_Child: "eval_step (Child k) = member k"
  by (rule ext) simp

text \<open>
  C8: in a stored document with a spec object and a status object, REVISION, IMAGE
  and STATE show the revision, image and desiredState members of spec, DEP-FOUND and
  DEP-INSTALLED the foundDependencies and installedDependencies members of status,
  and HEALTHY the status member of the elements of status.conditions whose type is
  Healthy.
\<close>

theorem printer_columns_from_fields:
  "(map_of root ''spec'' = Some (JObj sp) \<longrightarrow>
      column_cells ''REVISION'' (JObj root) = Some (member ''revision'' (JObj sp))
      \<and> column_cells ''IMAGE'' (JObj root) = Some (member ''image'' (JObj sp))
      \<and> column_cells ''STATE'' (JObj root) = Some (member ''desiredState'' (JObj sp)))
   \<and> (map_of root ''status'' = Some (JObj st) \<longrightarrow>
      column_cells ''DEP-FOUND'' (JObj root) = Some (member ''foundDependencies'' (JObj st))
      \<and> column_cells ''DEP-INSTALLED'' (JObj root) = Some (member ''installedDependencies'' (JObj st))
      \<and> (map_of st ''conditions'' = Some (JArr cs) \<longrightarrow>
           column_cells ''HEALTHY'' (JObj root) =
             Some (concat (map (member ''status'')
                     (filter (\<lambda>c. member ''type'' c = [JStr ''Healthy'']) cs)))))"
  by (simp add: column_cells_paths eval_step_Child)

theorem printer_columns_from_fields_witness:
  "column_cells ''REVISION'' example_document = Some [JNum 2]
   \<and> column_cells ''IMAGE'' example_document = Some [JStr ''img:v2'']
   \<and> column_cells ''STATE'' example_document = Some [JStr ''Active'']
   \<and> column_cells ''DEP-FOUND'' example_document = Some [JNum 3]
   \<and> column_cells ''DEP-INSTALLED'' example_document = Some [JNum 2]
   \<and> column_cells ''HEALTHY'' example_document = Some [JStr ''False'']"
  using printer_columns_from_fields [of
      "[(''spec'', JObj [(''desiredState'', JStr ''Active''), (''image'', JStr ''img:v2''), (''revision'', JNum 2)]),
        (''status'', JObj [(''conditions'',
                          JArr [JObj [(''type'', JStr ''Installed''), (''status'', JStr ''True'')],
                                JObj [(''type'', JStr ''Healthy''), (''status'', JStr ''False'')]]),
                        (''foundDependencies'', JNum 3),
                        (''installedDependencies'', JNum 2)])]"
      "[(''desiredState'', JStr ''Active''), (''image'', JStr ''img:v2''), (''revision'', JNum 2)]"
      "[(''conditions'',
                          JArr [JObj [(''type'', JStr ''Installed''), (''status'', JStr ''True'')],
                                JObj [(''type'', JStr ''Healthy''), (''status'', JStr ''False'')]]),
                        (''foundDependencies'', JNum 3),
                        (''installedDependencies'', JNum 2)]"
      "[JObj [(''type'', JStr ''Installed''), (''status'', JStr ''True'')],
        JObj [(''type'', JStr ''Healthy''), (''status'', JStr ''False'')]]"]
  by (simp add: example_document_def)

end
